theory Spec2Isabelle
  imports Main "HOL-Library.Sublist"
begin

section \<open>Strings and errors\<close>

text \<open>
  A Go string is a sequence of bytes: \<open>string\<close>. A Go \<open>error\<close> is modelled by the text
  its \<open>Error()\<close> method returns, so \<open>fmt.Errorf("label: %w", err)\<close> is the label followed
  by the text of \<open>err\<close>. A nil error is \<open>None\<close> of \<open>error option\<close>; a function that returns
  \<open>(T, error)\<close> returns a \<open>T result\<close>. A run-time panic is a value as well.
\<close>

type_synonym error = string

datatype fault = NilPointerDereference | IndexOutOfRange

datatype 'a result = Ok 'a | Err error | Panic fault

definition HasPrefix :: "string \<Rightarrow> string \<Rightarrow> bool" where
  "HasPrefix s p = prefix p s"

definition TrimPrefix :: "string \<Rightarrow> string \<Rightarrow> string" where
  "TrimPrefix s p = (if HasPrefix s p then drop (length p) s else s)"

section \<open>Package auth\<close>

type_synonym AzureCLICredential = string

record Authenticator =
  cred :: AzureCLICredential

section \<open>Package fabric: the data\<close>

record GitProviderDetails =
  OrganizationName :: string
  ProjectName :: string
  RepositoryName :: string
  BranchName :: string
  DirectoryName :: string
  GitProviderType :: string

text \<open>The pointer field \<open>GitProviderDetails\<close> of a workspace is an option: \<open>None\<close> is nil.\<close>

record Workspace =
  Id_ws :: string
  DisplayName :: string
  Description :: string
  Type_ws :: string
  CapacityId :: string
  GitProviderDetails :: "GitProviderDetails option"

record CreateWorkspaceRequest =
  req_DisplayName :: string
  req_Description :: string
  req_CapacityId :: string

record ConnectToGitRequest =
  req_GitProviderDetails :: "GitProviderDetails option"

record GetGitConnectionResponse =
  resp_GitProviderDetails :: "GitProviderDetails option"

record WorkspaceListResponse =
  list_Value :: "Workspace list"

record fabric_Client =
  fabric_auth :: "Authenticator option"

section \<open>Package devops: the data\<close>

record GitRef =
  ref_Name :: string
  ObjectId :: string

record GitRefsResponse =
  Count :: int
  Value :: "GitRef list"

record GitRefUpdate =
  Name :: string
  OldObjectId :: string
  NewObjectId :: string

record devops_Client =
  devops_auth :: "Authenticator option"

section \<open>The remote services\<close>

text \<open>
  Both clients send every request through their \<open>doRequest\<close>. A request is recorded as a
  \<open>call\<close>: the service (for Azure DevOps with the organization of the base URL), the HTTP
  method, the path and the body. What the service does with it is not part of the
  program. \<open>request_error\<close> is the error of building the request, if there is one (the
  body cannot be encoded, the URL is not well formed). \<open>answer\<close> gives, for each call,
  either the error \<open>doRequest\<close> returns after that (a failed token request, a transport
  error, a status of 400 or more, a body that does not decode) or the decoded reply.
  \<open>NewAzureCLICredential\<close> is the outcome of creating the credential.
\<close>

datatype body =
    NoBody
  | Body_refs "GitRefUpdate list"
  | Body_createWorkspace CreateWorkspaceRequest
  | Body_connect ConnectToGitRequest
  | Body_updateFromGit string bool

datatype call =
    DevOps_call string string string body
  | Fabric_call string string body

datatype reply =
    Reply_none
  | Reply_refs GitRefsResponse
  | Reply_workspace Workspace
  | Reply_workspaces WorkspaceListResponse
  | Reply_gitConnection GetGitConnectionResponse

record remote =
  request_error :: "call \<Rightarrow> error option"
  answer :: "call \<Rightarrow> error + reply"
  NewAzureCLICredential :: "error + AzureCLICredential"

text \<open>
  Decoding a reply into the variable \<open>out\<close> points to: a reply of another shape leaves the
  variable at its zero value, as \<open>encoding/json\<close> does with fields it does not find.
\<close>

definition out_GitRefsResponse :: "reply \<Rightarrow> GitRefsResponse" where
  "out_GitRefsResponse r =
     (case r of Reply_refs x \<Rightarrow> x | _ \<Rightarrow> \<lparr>Count = 0, Value = []\<rparr>)"

definition out_Workspace :: "reply \<Rightarrow> Workspace" where
  "out_Workspace r =
     (case r of Reply_workspace w \<Rightarrow> w
      | _ \<Rightarrow> \<lparr>Id_ws = [], DisplayName = [], Description = [], Type_ws = [],
               CapacityId = [], GitProviderDetails = None\<rparr>)"

definition out_WorkspaceListResponse :: "reply \<Rightarrow> WorkspaceListResponse" where
  "out_WorkspaceListResponse r =
     (case r of Reply_workspaces x \<Rightarrow> x | _ \<Rightarrow> \<lparr>list_Value = []\<rparr>)"

definition out_GetGitConnectionResponse :: "reply \<Rightarrow> GetGitConnectionResponse" where
  "out_GetGitConnectionResponse r =
     (case r of Reply_gitConnection x \<Rightarrow> x | _ \<Rightarrow> \<lparr>resp_GitProviderDetails = None\<rparr>)"

text \<open>
  Every function that talks to a service returns its result together with the calls it
  made, in order: the calls \<open>doRequest\<close> returned from, with an error or a reply.
  \<open>doRequest\<close> first builds the request and returns the error of that, if any. Then
  it reads \<open>c.auth\<close>, and the authenticator reads its credential, before anything is
  sent: on a nil client or a nil authenticator it panics, and no call is recorded.
\<close>

definition send :: "remote \<Rightarrow> Authenticator option \<Rightarrow> call \<Rightarrow> reply result \<times> call list" where
  "send R a c =
     (case a of
        None \<Rightarrow> (Panic NilPointerDereference, [])
      | Some _ \<Rightarrow> (case answer R c of Inl e \<Rightarrow> (Err e, [c]) | Inr r \<Rightarrow> (Ok r, [c])))"

definition devops_doRequest ::
  "remote \<Rightarrow> devops_Client option \<Rightarrow> string \<Rightarrow> string \<Rightarrow> string \<Rightarrow> body \<Rightarrow> reply result \<times> call list" where
  "devops_doRequest R c organization meth path b =
     (let req = DevOps_call organization meth path b
      in case request_error R req of
           Some e \<Rightarrow> (Err e, [req])
         | None \<Rightarrow>
             (case c of
                None \<Rightarrow> (Panic NilPointerDereference, [])
              | Some cl \<Rightarrow> send R (devops_auth cl) req))"

definition fabric_doRequest ::
  "remote \<Rightarrow> fabric_Client option \<Rightarrow> string \<Rightarrow> string \<Rightarrow> body \<Rightarrow> reply result \<times> call list" where
  "fabric_doRequest R c meth path b =
     (let req = Fabric_call meth path b
      in case request_error R req of
           Some e \<Rightarrow> (Err e, [req])
         | None \<Rightarrow>
             (case c of
                None \<Rightarrow> (Panic NilPointerDereference, [])
              | Some cl \<Rightarrow> send R (fabric_auth cl) req))"

section \<open>Package auth and the client constructors\<close>

definition NewAuthenticator :: "remote \<Rightarrow> error + Authenticator" where
  "NewAuthenticator R =
     (case NewAzureCLICredential R of
        Inl e \<Rightarrow> Inl (''failed to create Azure CLI credential: '' @ e)
      | Inr c \<Rightarrow> Inr \<lparr>cred = c\<rparr>)"

definition fabric_NewClient :: "Authenticator option \<Rightarrow> fabric_Client" where
  "fabric_NewClient authenticator = \<lparr>fabric_auth = authenticator\<rparr>"

definition devops_NewClient :: "Authenticator option \<Rightarrow> devops_Client" where
  "devops_NewClient authenticator = \<lparr>devops_auth = authenticator\<rparr>"

section \<open>Package devops: the operations\<close>

definition GetBranchObjectId ::
  "remote \<Rightarrow> devops_Client option \<Rightarrow> string \<Rightarrow> string \<Rightarrow> string \<Rightarrow> string \<Rightarrow> string result \<times> call list" where
  "GetBranchObjectId R c org project repo branchName =
     (let filterName = TrimPrefix branchName ''refs/heads/'';
          path = ''/'' @ project @ ''/_apis/git/repositories/'' @ repo
                 @ ''/refs?filter=heads/'' @ filterName @ ''&api-version=7.1''
      in case devops_doRequest R c org ''GET'' path NoBody of
           (Panic f, tr) \<Rightarrow> (Panic f, tr)
         | (Err e, tr) \<Rightarrow> (Err e, tr)
         | (Ok r, tr) \<Rightarrow>
             (let res = out_GitRefsResponse r
              in if Count res = 0
                 then (Err (''branch '' @ branchName @ '' not found in repo '' @ repo), tr)
                 else (case Value res of
                         [] \<Rightarrow> (Panic IndexOutOfRange, tr)
                       | v # _ \<Rightarrow> (Ok (ObjectId v), tr))))"

definition CreateBranch ::
  "remote \<Rightarrow> devops_Client option \<Rightarrow> string \<Rightarrow> string \<Rightarrow> string \<Rightarrow> string \<Rightarrow> string \<Rightarrow> unit result \<times> call list" where
  "CreateBranch R c org project repo newBranchName baseObjectId =
     (let fullBranchName =
            (if \<not> HasPrefix newBranchName ''refs/heads/''
             then ''refs/heads/'' @ newBranchName else newBranchName);
          updates = [\<lparr>Name = fullBranchName,
                      OldObjectId = ''0000000000000000000000000000000000000000'',
                      NewObjectId = baseObjectId\<rparr>];
          path = ''/'' @ project @ ''/_apis/git/repositories/'' @ repo
                 @ ''/refs?api-version=7.1''
      in case devops_doRequest R c org ''POST'' path (Body_refs updates) of
           (Panic f, tr) \<Rightarrow> (Panic f, tr)
         | (Err e, tr) \<Rightarrow> (Err e, tr)
         | (Ok _, tr) \<Rightarrow> (Ok (), tr))"

section \<open>Package fabric: the operations\<close>

definition ListWorkspaces :: "remote \<Rightarrow> fabric_Client option \<Rightarrow> Workspace list result \<times> call list" where
  "ListWorkspaces R c =
     (case fabric_doRequest R c ''GET'' ''/workspaces'' NoBody of
        (Panic f, tr) \<Rightarrow> (Panic f, tr)
      | (Err e, tr) \<Rightarrow> (Err e, tr)
      | (Ok r, tr) \<Rightarrow> (Ok (list_Value (out_WorkspaceListResponse r)), tr))"

definition GetGitConnection ::
  "remote \<Rightarrow> fabric_Client option \<Rightarrow> string \<Rightarrow> GetGitConnectionResponse result \<times> call list" where
  "GetGitConnection R c ident =
     (case fabric_doRequest R c ''GET'' (''/workspaces/'' @ ident @ ''/git/connection'') NoBody of
        (Panic f, tr) \<Rightarrow> (Panic f, tr)
      | (Err e, tr) \<Rightarrow> (Err e, tr)
      | (Ok r, tr) \<Rightarrow> (Ok (out_GetGitConnectionResponse r), tr))"

definition CreateWorkspace ::
  "remote \<Rightarrow> fabric_Client option \<Rightarrow> CreateWorkspaceRequest \<Rightarrow> Workspace result \<times> call list" where
  "CreateWorkspace R c req =
     (case fabric_doRequest R c ''POST'' ''/workspaces'' (Body_createWorkspace req) of
        (Panic f, tr) \<Rightarrow> (Panic f, tr)
      | (Err e, tr) \<Rightarrow> (Err e, tr)
      | (Ok r, tr) \<Rightarrow> (Ok (out_Workspace r), tr))"

definition ConnectWorkspaceToGit ::
  "remote \<Rightarrow> fabric_Client option \<Rightarrow> string \<Rightarrow> ConnectToGitRequest \<Rightarrow> unit result \<times> call list" where
  "ConnectWorkspaceToGit R c workspaceId req =
     (let path = ''/workspaces/'' @ workspaceId @ ''/git/connect''
      in case fabric_doRequest R c ''POST'' path (Body_connect req) of
           (Panic f, tr) \<Rightarrow> (Panic f, tr)
         | (Err e, tr) \<Rightarrow> (Err e, tr)
         | (Ok _, tr) \<Rightarrow> (Ok (), tr))"

definition UpdateWorkspaceFromGit ::
  "remote \<Rightarrow> fabric_Client option \<Rightarrow> string \<Rightarrow> unit result \<times> call list" where
  "UpdateWorkspaceFromGit R c workspaceId =
     (let path = ''/workspaces/'' @ workspaceId @ ''/git/updateFromGit'';
          req = Body_updateFromGit ''PreferRemote'' True
      in case fabric_doRequest R c ''POST'' path req of
           (Panic f, tr) \<Rightarrow> (Panic f, tr)
         | (Err e, tr) \<Rightarrow> (Err e, tr)
         | (Ok _, tr) \<Rightarrow> (Ok (), tr))"

section \<open>Package cmd: the session\<close>

datatype sessionState =
    stateInit
  | stateLoadingWorkspaces
  | stateSelectWorkspace
  | stateLoadingGit
  | stateEnterBranch
  | stateEnterWorkspace
  | stateExecuting
  | stateDone
  | stateError

datatype workspaceItem = workspaceItem (workspace: Workspace)

text \<open>
  The messages \<open>Update\<close> receives. \<open>KeyMsg\<close> carries the text of \<open>msg.String()\<close>;
  \<open>OtherMsg\<close> stands for every message of the terminal library that \<open>Update\<close> has no case
  for (a spinner tick, a cursor blink, a mouse event).
\<close>

datatype msg =
    KeyMsg string
  | WindowSizeMsg int int
  | errMsg error
  | clientsReadyMsg "Authenticator option" "fabric_Client option" "devops_Client option"
  | workspacesMsg "Workspace list"
  | gitConnectionMsg "GitProviderDetails option"
  | executionStepMsg string
  | executionDoneMsg string
  | OtherMsg string

text \<open>
  The widgets (spinner, list, text input) belong to the terminal library. Their states
  are the type parameters \<open>'sp\<close>, \<open>'lst\<close> and \<open>'ti\<close>, and the library functions the
  controller calls are the fields of \<open>widgets\<close>: nothing is assumed about them.
  \<open>list_SelectedItem\<close> is \<open>SelectedItem()\<close> followed by the type assertion to
  \<open>workspaceItem\<close>: \<open>None\<close> when no item is selected. \<open>frame_size\<close> is the pair
  \<open>GetFrameSize()\<close> returns for the style with margins 1 and 2.
\<close>

record ('sp, 'lst, 'ti) widgets =
  spinner_Update :: "'sp \<Rightarrow> msg \<Rightarrow> 'sp"
  list_SetSize :: "'lst \<Rightarrow> int \<Rightarrow> int \<Rightarrow> 'lst"
  list_SetItems :: "'lst \<Rightarrow> workspaceItem list \<Rightarrow> 'lst"
  list_SelectedItem :: "'lst \<Rightarrow> workspaceItem option"
  list_Update :: "'lst \<Rightarrow> msg \<Rightarrow> 'lst"
  textinput_Value :: "'ti \<Rightarrow> string"
  textinput_SetValue :: "'ti \<Rightarrow> string \<Rightarrow> 'ti"
  textinput_Focus :: "'ti \<Rightarrow> 'ti"
  textinput_Update :: "'ti \<Rightarrow> msg \<Rightarrow> 'ti"
  frame_size :: "int \<times> int"

text \<open>
  The session. The pointer \<open>selectedDevWorkspace\<close> is modelled by the workspace it points
  to (\<open>None\<close> is nil): the pointer is set to a fresh copy of the selected item, every copy
  of the model shares it, and the only write through it is the one of the
  \<open>gitConnectionMsg\<close> case of \<open>Update\<close>.
\<close>

record ('sp, 'lst, 'ti) model =
  state :: sessionState
  err :: "error option"
  successMsg :: string
  executionInfos :: "string list"
  authClient :: "Authenticator option"
  fabricClient :: "fabric_Client option"
  devopsClient :: "devops_Client option"
  spinner :: 'sp
  workspaceLst :: 'lst
  branchInput :: 'ti
  wsInput :: 'ti
  workspaces :: "Workspace list"
  selectedDevWorkspace :: "Workspace option"
  newBranchName :: string
  newWorkspaceName :: string

text \<open>
  \<open>initialModel\<close> builds and configures the four widgets (placeholder, focus, character
  limit, title) and returns the model around them; the configured widgets are the
  arguments here.
\<close>

definition initialModel :: "'sp \<Rightarrow> 'lst \<Rightarrow> 'ti \<Rightarrow> 'ti \<Rightarrow> ('sp, 'lst, 'ti) model" where
  "initialModel s lst bi wsi =
     \<lparr>state = stateInit, err = None, successMsg = [], executionInfos = [],
      authClient = None, fabricClient = None, devopsClient = None,
      spinner = s, workspaceLst = lst, branchInput = bi, wsInput = wsi,
      workspaces = [], selectedDevWorkspace = None,
      newBranchName = [], newWorkspaceName = []\<rparr>"

text \<open>
  The commands \<open>Init\<close> and \<open>Update\<close> return. A method value such as \<open>m.executeFlowCmd\<close>
  is bound to the model it is taken from, so the command carries that model. The
  commands of the widgets carry nothing: what they do is the library's business.
\<close>

datatype ('sp, 'lst, 'ti) cmd =
    Cmd_nil
  | Quit
  | Blink
  | spinner_Tick
  | spinner_Cmd
  | list_Cmd
  | textinput_Cmd
  | Cmd_initClients
  | Cmd_fetchWorkspaces "('sp, 'lst, 'ti) model"
  | Cmd_fetchGitConnection "('sp, 'lst, 'ti) model" string
  | Cmd_executeFlow "('sp, 'lst, 'ti) model"
  | Batch "('sp, 'lst, 'ti) cmd list"

definition Init :: "('sp, 'lst, 'ti) model \<Rightarrow> ('sp, 'lst, 'ti) cmd" where
  "Init m = Batch [spinner_Tick, Cmd_initClients]"

subsection \<open>The commands\<close>

definition initClientsCmd :: "remote \<Rightarrow> msg" where
  "initClientsCmd R =
     (case NewAuthenticator R of
        Inl e \<Rightarrow> errMsg e
      | Inr a \<Rightarrow> clientsReadyMsg (Some a) (Some (fabric_NewClient (Some a)))
                  (Some (devops_NewClient (Some a))))"

definition fetchWorkspacesCmd :: "remote \<Rightarrow> ('sp, 'lst, 'ti) model \<Rightarrow> (fault + msg) \<times> call list" where
  "fetchWorkspacesCmd R m =
     (case ListWorkspaces R (fabricClient m) of
        (Panic f, tr) \<Rightarrow> (Inl f, tr)
      | (Err e, tr) \<Rightarrow> (Inr (errMsg e), tr)
      | (Ok ws, tr) \<Rightarrow> (Inr (workspacesMsg ws), tr))"

definition fetchGitConnectionCmd ::
  "remote \<Rightarrow> ('sp, 'lst, 'ti) model \<Rightarrow> string \<Rightarrow> (fault + msg) \<times> call list" where
  "fetchGitConnectionCmd R m ident =
     (case GetGitConnection R (fabricClient m) ident of
        (Panic f, tr) \<Rightarrow> (Inl f, tr)
      | (Err e, tr) \<Rightarrow> (Inr (errMsg (''failed to get git connection: '' @ e)), tr)
      | (Ok resp, tr) \<Rightarrow> (Inr (gitConnectionMsg (resp_GitProviderDetails resp)), tr))"

text \<open>
  The execution sequence. The first line reads the git link through the selected
  workspace, and the arguments of the first call read the fields of the git link: either
  read panics on nil. Each step returns at its first error, with the label of the step
  before the text of the error.
\<close>

definition executeFlowCmd :: "remote \<Rightarrow> ('sp, 'lst, 'ti) model \<Rightarrow> (fault + msg) \<times> call list" where
  "executeFlowCmd R m =
     (case selectedDevWorkspace m of
        None \<Rightarrow> (Inl NilPointerDereference, [])
      | Some sel \<Rightarrow>
     (case GitProviderDetails sel of
        None \<Rightarrow> (Inl NilPointerDereference, [])
      | Some gitInfo \<Rightarrow>
     (case GetBranchObjectId R (devopsClient m) (OrganizationName gitInfo)
             (ProjectName gitInfo) (RepositoryName gitInfo) (BranchName gitInfo) of
        (Panic f, t1) \<Rightarrow> (Inl f, t1)
      | (Err e, t1) \<Rightarrow> (Inr (errMsg (''getting dev branch commit: '' @ e)), t1)
      | (Ok baseCommitId, t1) \<Rightarrow>
     (case CreateBranch R (devopsClient m) (OrganizationName gitInfo)
             (ProjectName gitInfo) (RepositoryName gitInfo) (newBranchName m) baseCommitId of
        (Panic f, t2) \<Rightarrow> (Inl f, t1 @ t2)
      | (Err e, t2) \<Rightarrow> (Inr (errMsg (''creating feature branch: '' @ e)), t1 @ t2)
      | (Ok _, t2) \<Rightarrow>
     (let req = \<lparr>req_DisplayName = newWorkspaceName m,
                 req_Description = ''Feature workspace for '' @ newBranchName m
                    @ '' (Parent: '' @ DisplayName sel @ '')'',
                 req_CapacityId = CapacityId sel\<rparr>
      in case CreateWorkspace R (fabricClient m) req of
        (Panic f, t3) \<Rightarrow> (Inl f, t1 @ t2 @ t3)
      | (Err e, t3) \<Rightarrow> (Inr (errMsg (''creating workspace: '' @ e)), t1 @ t2 @ t3)
      | (Ok newWs, t3) \<Rightarrow>
     (let newGitInfo = gitInfo\<lparr>BranchName := newBranchName m\<rparr>
      in case ConnectWorkspaceToGit R (fabricClient m) (Id_ws newWs)
                \<lparr>req_GitProviderDetails = Some newGitInfo\<rparr> of
        (Panic f, t4) \<Rightarrow> (Inl f, t1 @ t2 @ t3 @ t4)
      | (Err e, t4) \<Rightarrow> (Inr (errMsg (''connecting git: '' @ e)), t1 @ t2 @ t3 @ t4)
      | (Ok _, t4) \<Rightarrow>
     (case UpdateWorkspaceFromGit R (fabricClient m) (Id_ws newWs) of
        (Panic f, t5) \<Rightarrow> (Inl f, t1 @ t2 @ t3 @ t4 @ t5)
      | (Err e, t5) \<Rightarrow> (Inr (errMsg (''updating from git: '' @ e)), t1 @ t2 @ t3 @ t4 @ t5)
      | (Ok _, t5) \<Rightarrow>
          (Inr (executionDoneMsg ''Workspace and Branch created and synced successfully!''),
           t1 @ t2 @ t3 @ t4 @ t5))))))))"

subsection \<open>Update\<close>

text \<open>
  The second switch of \<open>Update\<close>, on the phase: it is reached by the messages the first
  switch does not return from (a key other than ctrl+c, a window size, any other
  message of the library).
\<close>

definition Update_state ::
  "('sp, 'lst, 'ti) widgets \<Rightarrow> ('sp, 'lst, 'ti) model \<Rightarrow> msg
     \<Rightarrow> ('sp, 'lst, 'ti) model \<times> ('sp, 'lst, 'ti) cmd" where
  "Update_state W m x =
     (let on_spinner = (m\<lparr>spinner := spinner_Update W (spinner m) x\<rparr>, Batch [spinner_Cmd]);
          on_list = (m\<lparr>workspaceLst := list_Update W (workspaceLst m) x\<rparr>, Batch [list_Cmd])
      in case state m of
        stateInit \<Rightarrow> on_spinner
      | stateLoadingWorkspaces \<Rightarrow> on_spinner
      | stateLoadingGit \<Rightarrow> on_spinner
      | stateExecuting \<Rightarrow> on_spinner
      | stateSelectWorkspace \<Rightarrow>
          (case x of
             KeyMsg k \<Rightarrow>
               (if k = ''enter'' then
                  (case list_SelectedItem W (workspaceLst m) of
                     Some i \<Rightarrow>
                       (let m' = m\<lparr>selectedDevWorkspace := Some (workspace i),
                                    state := stateLoadingGit\<rparr>
                        in (m', Cmd_fetchGitConnection m' (Id_ws (workspace i))))
                   | None \<Rightarrow> on_list)
                else on_list)
           | _ \<Rightarrow> on_list)
      | stateEnterBranch \<Rightarrow>
          (let typed = (\<lambda>m. (m\<lparr>branchInput := textinput_Update W (branchInput m) x\<rparr>,
                              Batch [textinput_Cmd]))
           in case x of
             KeyMsg k \<Rightarrow>
               (if k = ''enter'' then
                  (let m1 = m\<lparr>newBranchName := textinput_Value W (branchInput m)\<rparr>
                   in if newBranchName m1 \<noteq> [] then
                        (m1\<lparr>state := stateEnterWorkspace,
                            wsInput := textinput_Focus W
                              (textinput_SetValue W (wsInput m1)
                                 (''Feature - '' @ newBranchName m1))\<rparr>,
                         Blink)
                      else typed m1)
                else typed m)
           | _ \<Rightarrow> typed m)
      | stateEnterWorkspace \<Rightarrow>
          (let typed = (\<lambda>m. (m\<lparr>wsInput := textinput_Update W (wsInput m) x\<rparr>,
                              Batch [textinput_Cmd]))
           in case x of
             KeyMsg k \<Rightarrow>
               (if k = ''enter'' then
                  (let m1 = m\<lparr>newWorkspaceName := textinput_Value W (wsInput m)\<rparr>
                   in if newWorkspaceName m1 \<noteq> [] then
                        (let m2 = m1\<lparr>state := stateExecuting\<rparr>
                         in (m2, Cmd_executeFlow m2))
                      else typed m1)
                else typed m)
           | _ \<Rightarrow> typed m)
      | stateDone \<Rightarrow> (m, Batch [])
      | stateError \<Rightarrow> (m, Batch []))"

text \<open>
  \<open>Update\<close>: the first switch is on the type of the message, whatever the phase is. The
  \<open>gitConnectionMsg\<close> case checks the details first and then stores them through
  \<open>selectedDevWorkspace\<close>, which panics when that pointer is nil.
\<close>

definition Update ::
  "('sp, 'lst, 'ti) widgets \<Rightarrow> ('sp, 'lst, 'ti) model \<Rightarrow> msg
     \<Rightarrow> fault + ('sp, 'lst, 'ti) model \<times> ('sp, 'lst, 'ti) cmd" where
  "Update W m x =
     (let no_git = Inr (m\<lparr>err := Some ''selected workspace does not have git integration (or unsupported provider)'',
                          state := stateError\<rparr>, Cmd_nil)
      in case x of
        KeyMsg k \<Rightarrow> (if k = ''ctrl+c'' then Inr (m, Quit) else Inr (Update_state W m x))
      | WindowSizeMsg width height \<Rightarrow>
          Inr (Update_state W
                 (m\<lparr>workspaceLst := list_SetSize W (workspaceLst m)
                       (width - fst (frame_size W)) (height - snd (frame_size W))\<rparr>) x)
      | errMsg e \<Rightarrow> Inr (m\<lparr>err := Some e, state := stateError\<rparr>, Cmd_nil)
      | clientsReadyMsg a f d \<Rightarrow>
          (let m' = m\<lparr>authClient := a, fabricClient := f, devopsClient := d,
                       state := stateLoadingWorkspaces\<rparr>
           in Inr (m', Cmd_fetchWorkspaces m'))
      | workspacesMsg ws \<Rightarrow>
          Inr (m\<lparr>workspaces := ws,
                 workspaceLst := list_SetItems W (workspaceLst m) (map workspaceItem ws),
                 state := stateSelectWorkspace\<rparr>, Cmd_nil)
      | gitConnectionMsg details \<Rightarrow>
          (case details of
             None \<Rightarrow> no_git
           | Some d \<Rightarrow>
               (if GitProviderType d = [] then no_git
                else (case selectedDevWorkspace m of
                        None \<Rightarrow> Inl NilPointerDereference
                      | Some sel \<Rightarrow>
                          Inr (m\<lparr>selectedDevWorkspace := Some (sel\<lparr>GitProviderDetails := Some d\<rparr>),
                                 state := stateEnterBranch\<rparr>, Blink))))
      | executionStepMsg info \<Rightarrow> Inr (m\<lparr>executionInfos := executionInfos m @ [info]\<rparr>, Cmd_nil)
      | executionDoneMsg s \<Rightarrow> Inr (m\<lparr>successMsg := s, state := stateDone\<rparr>, Quit)
      | OtherMsg _ \<Rightarrow> Inr (Update_state W m x))"

section \<open>The event loop\<close>

text \<open>
  The terminal library runs the program: it starts the command of \<open>Init\<close>, passes every
  message to \<open>Update\<close> and starts the command \<open>Update\<close> returns. A command runs on its
  own and its result comes back later as a message, after any number of messages from
  the terminal. \<open>remote_cmds\<close> are the commands of this package in a command (the ones
  that call a service); the commands of the widgets only produce library messages, which
  may arrive at any time here. After \<open>Quit\<close> the library leaves the loop at its next
  message; the loop here goes on instead, which adds runs and removes none.
\<close>

fun remote_cmds :: "('sp, 'lst, 'ti) cmd \<Rightarrow> ('sp, 'lst, 'ti) cmd list" where
  "remote_cmds (Batch cs) = concat (map remote_cmds cs)"
| "remote_cmds Cmd_initClients = [Cmd_initClients]"
| "remote_cmds (Cmd_fetchWorkspaces m) = [Cmd_fetchWorkspaces m]"
| "remote_cmds (Cmd_fetchGitConnection m i) = [Cmd_fetchGitConnection m i]"
| "remote_cmds (Cmd_executeFlow m) = [Cmd_executeFlow m]"
| "remote_cmds _ = []"

definition run_cmd :: "remote \<Rightarrow> ('sp, 'lst, 'ti) cmd \<Rightarrow> fault + msg" where
  "run_cmd R c =
     (case c of
        Cmd_initClients \<Rightarrow> Inr (initClientsCmd R)
      | Cmd_fetchWorkspaces m \<Rightarrow> fst (fetchWorkspacesCmd R m)
      | Cmd_fetchGitConnection m i \<Rightarrow> fst (fetchGitConnectionCmd R m i)
      | Cmd_executeFlow m \<Rightarrow> fst (executeFlowCmd R m)
      | _ \<Rightarrow> Inr (OtherMsg []))"

text \<open>
  A running program is its current model and the commands in flight; a panic, in
  \<open>Update\<close> or in a command, ends it.
\<close>

datatype ('sp, 'lst, 'ti) program =
    Running "('sp, 'lst, 'ti) model" "('sp, 'lst, 'ti) cmd list"
  | Crashed fault

datatype event =
    Key string
  | WindowSize int int
  | Library string
  | Complete nat

definition deliver ::
  "('sp, 'lst, 'ti) widgets \<Rightarrow> ('sp, 'lst, 'ti) model \<Rightarrow> ('sp, 'lst, 'ti) cmd list \<Rightarrow> msg
     \<Rightarrow> ('sp, 'lst, 'ti) program" where
  "deliver W m ps x =
     (case Update W m x of
        Inl f \<Rightarrow> Crashed f
      | Inr (m', c) \<Rightarrow> Running m' (ps @ remote_cmds c))"

text \<open>\<open>Complete n\<close>: the command at position \<open>n\<close> of the ones in flight returns.\<close>

fun step ::
  "remote \<Rightarrow> ('sp, 'lst, 'ti) widgets \<Rightarrow> ('sp, 'lst, 'ti) program \<Rightarrow> event
     \<Rightarrow> ('sp, 'lst, 'ti) program" where
  "step R W (Crashed f) e = Crashed f"
| "step R W (Running m ps) (Key k) = deliver W m ps (KeyMsg k)"
| "step R W (Running m ps) (WindowSize w h) = deliver W m ps (WindowSizeMsg w h)"
| "step R W (Running m ps) (Library x) = deliver W m ps (OtherMsg x)"
| "step R W (Running m ps) (Complete n) =
     (if n < length ps then
        (case run_cmd R (ps ! n) of
           Inl f \<Rightarrow> Crashed f
         | Inr x \<Rightarrow> deliver W m (take n ps @ drop (Suc n) ps) x)
      else Running m ps)"

definition start :: "'sp \<Rightarrow> 'lst \<Rightarrow> 'ti \<Rightarrow> 'ti \<Rightarrow> ('sp, 'lst, 'ti) program" where
  "start s lst bi wsi =
     (let m = initialModel s lst bi wsi in Running m (remote_cmds (Init m)))"

definition run ::
  "remote \<Rightarrow> ('sp, 'lst, 'ti) widgets \<Rightarrow> ('sp, 'lst, 'ti) program \<Rightarrow> event list
     \<Rightarrow> ('sp, 'lst, 'ti) program" where
  "run R W p es = foldl (step R W) p es"

text \<open>The phases a run goes through, one after each event, while the program lives.\<close>

fun phases ::
  "remote \<Rightarrow> ('sp, 'lst, 'ti) widgets \<Rightarrow> ('sp, 'lst, 'ti) program \<Rightarrow> event list
     \<Rightarrow> sessionState list" where
  "phases R W (Crashed f) es = []"
| "phases R W (Running m ps) [] = [state m]"
| "phases R W (Running m ps) (e # es) = state m # phases R W (step R W (Running m ps) e) es"

text \<open>The same for messages given to \<open>Update\<close> directly, whatever they are.\<close>

fun phases_of_messages ::
  "('sp, 'lst, 'ti) widgets \<Rightarrow> ('sp, 'lst, 'ti) model \<Rightarrow> msg list \<Rightarrow> sessionState list" where
  "phases_of_messages W m [] = [state m]"
| "phases_of_messages W m (x # xs) =
     state m # (case Update W m x of
                  Inl f \<Rightarrow> []
                | Inr (m', c) \<Rightarrow> phases_of_messages W m' xs)"

text \<open>The order of the phases: stay, move to the next phase, or fall into the error phase.\<close>

fun next_phase :: "sessionState \<Rightarrow> sessionState option" where
  "next_phase stateInit = Some stateLoadingWorkspaces"
| "next_phase stateLoadingWorkspaces = Some stateSelectWorkspace"
| "next_phase stateSelectWorkspace = Some stateLoadingGit"
| "next_phase stateLoadingGit = Some stateEnterBranch"
| "next_phase stateEnterBranch = Some stateEnterWorkspace"
| "next_phase stateEnterWorkspace = Some stateExecuting"
| "next_phase stateExecuting = Some stateDone"
| "next_phase stateDone = None"
| "next_phase stateError = None"

definition in_order :: "sessionState \<Rightarrow> sessionState \<Rightarrow> bool" where
  "in_order p q = (q = p \<or> next_phase p = Some q \<or> (q = stateError \<and> p \<noteq> stateDone))"

section \<open>A concrete instance\<close>

text \<open>
  Plain widgets to run the program on: the spinner has no state, the list is its items
  with the first one selected, and a text input is its text. Both text inputs are
  configured by \<open>initialModel\<close> with the character limit 100, and the library's text
  input keeps no more than its limit: \<open>SetValue\<close> keeps the first 100 characters of the
  text it is given, and a key other than enter adds its text to the input as far as the
  limit allows.
\<close>

definition plain_widgets :: "(unit, workspaceItem list, string) widgets" where
  "plain_widgets =
     \<lparr>spinner_Update = (\<lambda>s x. s),
      list_SetSize = (\<lambda>l w h. l),
      list_SetItems = (\<lambda>l items. items),
      list_SelectedItem = (\<lambda>l. case l of [] \<Rightarrow> None | i # _ \<Rightarrow> Some i),
      list_Update = (\<lambda>l x. l),
      textinput_Value = (\<lambda>t. t),
      textinput_SetValue = (\<lambda>t s. take 100 s),
      textinput_Focus = (\<lambda>t. t),
      textinput_Update = (\<lambda>t x. case x of KeyMsg k \<Rightarrow> (if k = ''enter'' then t else take 100 (t @ k))
                                    | _ \<Rightarrow> t),
      frame_size = (4, 2)\<rparr>"

definition dev_link :: GitProviderDetails where
  "dev_link = \<lparr>OrganizationName = ''A'', ProjectName = ''P'', RepositoryName = ''R'',
               BranchName = ''main'', DirectoryName = ''/'', GitProviderType = ''AzureDevOps''\<rparr>"

definition dev_workspace :: Workspace where
  "dev_workspace = \<lparr>Id_ws = ''ws-dev'', DisplayName = ''Dev'', Description = [],
                    Type_ws = ''Workspace'', CapacityId = ''cap-1'', GitProviderDetails = None\<rparr>"

definition new_workspace :: Workspace where
  "new_workspace = \<lparr>Id_ws = ''ws-new'', DisplayName = ''Feature - feature/login'',
                    Description = [], Type_ws = ''Workspace'', CapacityId = ''cap-1'',
                    GitProviderDetails = None\<rparr>"

definition az_devops :: devops_Client where
  "az_devops = devops_NewClient (Some \<lparr>cred = ''az''\<rparr>)"

text \<open>A service that answers every call with success.\<close>

definition good_answer :: "call \<Rightarrow> error + reply" where
  "good_answer c =
     (case c of
        DevOps_call org meth path b \<Rightarrow>
          (if meth = ''GET''
           then Inr (Reply_refs \<lparr>Count = 1, Value = [\<lparr>ref_Name = ''refs/heads/main'', ObjectId = ''c0ffee''\<rparr>]\<rparr>)
           else Inr Reply_none)
      | Fabric_call meth path b \<Rightarrow>
          (if meth = ''GET'' then
             (if path = ''/workspaces''
              then Inr (Reply_workspaces \<lparr>list_Value = [dev_workspace]\<rparr>)
              else Inr (Reply_gitConnection \<lparr>resp_GitProviderDetails = Some dev_link\<rparr>))
           else (case b of
                   Body_createWorkspace req \<Rightarrow> Inr (Reply_workspace new_workspace)
                 | _ \<Rightarrow> Inr Reply_none)))"

definition good_remote :: remote where
  "good_remote = \<lparr>request_error = (\<lambda>c. None), answer = good_answer,
                  NewAzureCLICredential = Inr ''az''\<rparr>"

text \<open>The same service, except that creating a workspace fails.\<close>

definition no_capacity_remote :: remote where
  "no_capacity_remote =
     \<lparr>request_error = (\<lambda>c. None),
      answer = (\<lambda>c. case c of
                  Fabric_call meth path (Body_createWorkspace req) \<Rightarrow>
                    Inl ''fabric API error 403: no capacity''
                | _ \<Rightarrow> good_answer c),
      NewAzureCLICredential = Inr ''az''\<rparr>"

text \<open>
  The end-to-end session: the clients are ready, the workspaces arrive, the user confirms
  the first one, its git link arrives, the user types feature/login and confirms it,
  confirms the proposed workspace name, and the execution sequence returns.
\<close>

definition session :: "event list" where
  "session = [Complete 0, Complete 0, Key ''enter'', Complete 0,
              Key ''feature/login'', Key ''enter'', Key ''enter'', Complete 0]"

text \<open>A session that is ready to run the execution sequence of the end-to-end session.\<close>

definition ready_model :: "(unit, workspaceItem list, string) model" where
  "ready_model =
     \<lparr>state = stateExecuting, err = None, successMsg = [], executionInfos = [],
      authClient = Some \<lparr>cred = ''az''\<rparr>,
      fabricClient = Some (fabric_NewClient (Some \<lparr>cred = ''az''\<rparr>)),
      devopsClient = Some az_devops,
      spinner = (), workspaceLst = [workspaceItem dev_workspace],
      branchInput = ''feature/login'', wsInput = ''Feature - feature/login'',
      workspaces = [dev_workspace],
      selectedDevWorkspace = Some (dev_workspace\<lparr>GitProviderDetails := Some dev_link\<rparr>),
      newBranchName = ''feature/login'', newWorkspaceName = ''Feature - feature/login''\<rparr>"

text \<open>
  The same session with the branch name main, which is the branch of the source
  workspace's git link, and a branch name of 91 characters.
\<close>

definition same_branch_session :: "event list" where
  "same_branch_session = [Complete 0, Complete 0, Key ''enter'', Complete 0,
                          Key ''main'', Key ''enter'', Key ''enter'', Complete 0]"

definition same_branch_model :: "(unit, workspaceItem list, string) model" where
  "same_branch_model =
     ready_model\<lparr>branchInput := ''main'', wsInput := ''Feature - main'',
                 newBranchName := ''main'', newWorkspaceName := ''Feature - main''\<rparr>"

definition long_name :: string where
  "long_name = replicate 91 (CHR ''a'')"

section \<open>Notions the properties are stated with\<close>

definition no_git_error :: error where
  "no_git_error = ''selected workspace does not have git integration (or unsupported provider)''"

text \<open>The names of the refs a list of calls asks Azure DevOps to create or update.\<close>

definition created_refs :: "call list \<Rightarrow> string list" where
  "created_refs tr =
     concat (map (\<lambda>c. case c of DevOps_call org meth path (Body_refs us) \<Rightarrow> map Name us | _ \<Rightarrow> []) tr)"

text \<open>
  The step of the execution sequence a call belongs to, read from its body: 1 resolves
  the base commit, 2 creates the branch, 3 creates the workspace, 4 links it to git,
  5 starts the update from git.
\<close>

fun step_of :: "call \<Rightarrow> nat" where
  "step_of (DevOps_call org meth path NoBody) = 1"
| "step_of (DevOps_call org meth path (Body_refs us)) = 2"
| "step_of (Fabric_call meth path (Body_createWorkspace req)) = 3"
| "step_of (Fabric_call meth path (Body_connect req)) = 4"
| "step_of (Fabric_call meth path (Body_updateFromGit t ov)) = 5"
| "step_of _ = 0"

text \<open>The requests to create a workspace, and the git links to connect, in a list of calls.\<close>

definition create_requests :: "call list \<Rightarrow> CreateWorkspaceRequest list" where
  "create_requests tr =
     concat (map (\<lambda>c. case c of Fabric_call meth path (Body_createWorkspace req) \<Rightarrow> [req] | _ \<Rightarrow> []) tr)"

definition connect_links :: "call list \<Rightarrow> GitProviderDetails option list" where
  "connect_links tr =
     concat (map (\<lambda>c. case c of Fabric_call meth path (Body_connect req) \<Rightarrow> [req_GitProviderDetails req]
                        | _ \<Rightarrow> []) tr)"

text \<open>The error a call ends with, if it fails: the request is not built, or the answer is an error.\<close>

definition failure :: "remote \<Rightarrow> call \<Rightarrow> error option" where
  "failure R c =
     (case request_error R c of
        Some e \<Rightarrow> Some e
      | None \<Rightarrow> (case answer R c of Inl e \<Rightarrow> Some e | Inr r \<Rightarrow> None))"

definition succeeded :: "remote \<Rightarrow> call \<Rightarrow> bool" where
  "succeeded R c = (failure R c = None)"

definition done_text :: string where
  "done_text = ''Workspace and Branch created and synced successfully!''"

text \<open>
  Short forms, for the lemmas about the execution sequence, of the call of step 3 and of
  the call of step 4 to the path \<open>p\<close>; they stand for the terms on their right.
\<close>

abbreviation create_call :: "('sp, 'lst, 'ti) model \<Rightarrow> Workspace \<Rightarrow> call" where
  "create_call m sel \<equiv>
     Fabric_call ''POST'' ''/workspaces''
       (Body_createWorkspace
          \<lparr>req_DisplayName = newWorkspaceName m,
           req_Description = ''Feature workspace for '' @ newBranchName m
              @ '' (Parent: '' @ DisplayName sel @ '')'',
           req_CapacityId = CapacityId sel\<rparr>)"

abbreviation connect_call :: "('sp, 'lst, 'ti) model \<Rightarrow> GitProviderDetails \<Rightarrow> string \<Rightarrow> call" where
  "connect_call m g p \<equiv>
     Fabric_call ''POST'' p
       (Body_connect \<lparr>req_GitProviderDetails = Some (g\<lparr>BranchName := newBranchName m\<rparr>)\<rparr>)"

text \<open>
  A client that can send: the pointer and the authenticator in it are not nil. A session
  is live when both of its clients can send, and linked when a workspace is selected
  and carries a git link.
\<close>

definition devops_live :: "devops_Client option \<Rightarrow> bool" where
  "devops_live c = (case c of None \<Rightarrow> False | Some cl \<Rightarrow> devops_auth cl \<noteq> None)"

definition fabric_live :: "fabric_Client option \<Rightarrow> bool" where
  "fabric_live c = (case c of None \<Rightarrow> False | Some cl \<Rightarrow> fabric_auth cl \<noteq> None)"

definition live :: "('sp, 'lst, 'ti) model \<Rightarrow> bool" where
  "live m = (devops_live (devopsClient m) \<and> fabric_live (fabricClient m))"

definition linked :: "('sp, 'lst, 'ti) model \<Rightarrow> bool" where
  "linked m =
     (case selectedDevWorkspace m of
        None \<Rightarrow> False
      | Some sel \<Rightarrow> GitProviderDetails sel \<noteq> None)"

text \<open>
  What holds of every program the event loop reaches. The session has recorded no
  progress entry; from the phase that loads the git link to the phase that executes,
  a workspace is selected, and from the phase that asks for the branch name on it
  carries a git link; outside the first phase and the error phase both clients can
  send; in the last phase the summary is the text of the execution sequence.
\<close>

definition sound :: "('sp, 'lst, 'ti) model \<Rightarrow> bool" where
  "sound m =
     (executionInfos m = []
      \<and> (state m \<in> {stateLoadingGit, stateEnterBranch, stateEnterWorkspace, stateExecuting}
           \<longrightarrow> selectedDevWorkspace m \<noteq> None)
      \<and> (state m \<in> {stateEnterBranch, stateEnterWorkspace, stateExecuting} \<longrightarrow> linked m)
      \<and> (state m \<notin> {stateInit, stateError} \<longrightarrow> live m)
      \<and> (state m = stateDone \<longrightarrow> successMsg m = done_text))"

text \<open>
  The command a phase waits for, with the model it is bound to: the clients are made
  in the first phase, the workspaces are fetched and the git link is fetched by a
  session that can send, and the execution sequence is run by a session that can send
  and has a linked workspace selected.
\<close>

fun awaited :: "sessionState \<Rightarrow> ('sp, 'lst, 'ti) cmd \<Rightarrow> bool" where
  "awaited stateInit Cmd_initClients = True"
| "awaited stateLoadingWorkspaces (Cmd_fetchWorkspaces mm) = live mm"
| "awaited stateLoadingGit (Cmd_fetchGitConnection mm i) = live mm"
| "awaited stateExecuting (Cmd_executeFlow mm) = (live mm \<and> linked mm)"
| "awaited _ _ = False"

definition in_flight_ok :: "sessionState \<Rightarrow> ('sp, 'lst, 'ti) cmd list \<Rightarrow> bool" where
  "in_flight_ok p ps = (case ps of [] \<Rightarrow> True | [c] \<Rightarrow> awaited p c | _ \<Rightarrow> False)"

fun invariant :: "('sp, 'lst, 'ti) program \<Rightarrow> bool" where
  "invariant (Crashed f) = (f \<noteq> NilPointerDereference)"
| "invariant (Running m ps) = (sound m \<and> in_flight_ok (state m) ps)"

text \<open>
  The model after a list of messages given to \<open>Update\<close> one after the other, whatever
  they are and in whatever phase they arrive; a panic ends it.
\<close>

fun after_messages ::
  "('sp, 'lst, 'ti) widgets \<Rightarrow> ('sp, 'lst, 'ti) model \<Rightarrow> msg list
     \<Rightarrow> fault + ('sp, 'lst, 'ti) model" where
  "after_messages W m [] = Inr m"
| "after_messages W m (x # xs) =
     (case Update W m x of
        Inl f \<Rightarrow> Inl f
      | Inr (m', c) \<Rightarrow> after_messages W m' xs)"

definition selected_when_needed :: "('sp, 'lst, 'ti) model \<Rightarrow> bool" where
  "selected_when_needed m =
     ((state m \<in> {stateLoadingGit, stateEnterBranch, stateEnterWorkspace, stateExecuting}
         \<longrightarrow> selectedDevWorkspace m \<noteq> None)
      \<and> (state m \<in> {stateEnterBranch, stateEnterWorkspace, stateExecuting} \<longrightarrow> linked m))"

section \<open>Properties\<close>

subsection \<open>A git link that cannot be used\<close>

text \<open>
  C4. A git-link result whose details are missing, or whose provider type is the empty
  string, puts the session into the error phase with the message about missing or
  unsupported git integration. The result is a model, not a panic: the check comes
  before the write through the selected workspace, so this holds in every phase and
  for every model. The phase is \<open>stateError\<close>, hence not \<open>stateEnterBranch\<close>, and no
  command is returned.
\<close>

theorem unusable_git_link_is_an_error:
  "details = None \<or> (\<exists>d. details = Some d \<and> GitProviderType d = []) \<Longrightarrow>
   Update W m (gitConnectionMsg details)
     = Inr (m\<lparr>err := Some no_git_error, state := stateError\<rparr>, Cmd_nil)"
  by (auto simp: Update_def no_git_error_def)

theorem unusable_git_link_is_an_error_witness:
  "Update plain_widgets (initialModel () [] [] [] \<lparr>state := stateLoadingGit\<rparr>)
       (gitConnectionMsg (Some (dev_link\<lparr>GitProviderType := []\<rparr>)))
     = Inr (initialModel () [] [] [] \<lparr>err := Some no_git_error, state := stateError\<rparr>, Cmd_nil)"
  using unusable_git_link_is_an_error
    [of "Some (dev_link\<lparr>GitProviderType := []\<rparr>)" plain_widgets
        "initialModel () [] [] [] \<lparr>state := stateLoadingGit\<rparr>"]
  by simp

subsection \<open>The name of the new branch\<close>

lemma CreateBranch_sent:
  "c = Some cl \<Longrightarrow> devops_auth cl = Some a \<Longrightarrow>
   created_refs (snd (CreateBranch R c org project repo b base))
     = [if HasPrefix b ''refs/heads/'' then b else ''refs/heads/'' @ b]"
  by (auto simp: CreateBranch_def devops_doRequest_def send_def created_refs_def Let_def
      split: sum.splits option.splits)

lemma HasPrefix_append: "HasPrefix (p @ b) p"
  by (simp add: HasPrefix_def)

text \<open>
  C7. With a client that can send, \<open>CreateBranch\<close> asks for exactly one ref. A name that
  carries the prefix refs/heads/ is sent as it is; a name that lacks it is sent with the
  prefix added, and then the whole operation (the call made and its result) is the same
  as for the name written with the prefix. Sending the name that was sent once more
  sends it unchanged: the normalisation is idempotent.
\<close>

theorem branch_name_normalised:
  assumes "c = Some cl" and "devops_auth cl = Some a"
  shows "created_refs (snd (CreateBranch R c org project repo (''refs/heads/'' @ b) base))
           = [''refs/heads/'' @ b]
       \<and> (\<not> HasPrefix b ''refs/heads/'' \<longrightarrow>
            created_refs (snd (CreateBranch R c org project repo b base)) = [''refs/heads/'' @ b]
          \<and> CreateBranch R c org project repo b base
              = CreateBranch R c org project repo (''refs/heads/'' @ b) base)
       \<and> (HasPrefix b ''refs/heads/'' \<longrightarrow>
            created_refs (snd (CreateBranch R c org project repo b base)) = [b])
       \<and> (\<forall>n \<in> set (created_refs (snd (CreateBranch R c org project repo b base))).
            created_refs (snd (CreateBranch R c org project repo n base)) = [n])"
proof -
  have sent: "\<And>x. created_refs (snd (CreateBranch R c org project repo x base))
     = [if HasPrefix x ''refs/heads/'' then x else ''refs/heads/'' @ x]"
    using assms by (rule CreateBranch_sent)
  have same: "\<not> HasPrefix b ''refs/heads/'' \<Longrightarrow> CreateBranch R c org project repo b base
              = CreateBranch R c org project repo (''refs/heads/'' @ b) base"
    unfolding CreateBranch_def Let_def using HasPrefix_append[of "''refs/heads/''" b] by simp
  show ?thesis
    using same by (auto simp: sent HasPrefix_append simp del: append.simps)
qed

theorem branch_name_normalised_witness:
  "created_refs (snd (CreateBranch good_remote (Some az_devops)
       ''A'' ''P'' ''R'' ''feature/x'' ''c0ffee'')) = [''refs/heads/feature/x'']
   \<and> CreateBranch good_remote (Some az_devops) ''A'' ''P'' ''R'' ''feature/x'' ''c0ffee''
     = CreateBranch good_remote (Some az_devops) ''A'' ''P'' ''R'' ''refs/heads/feature/x'' ''c0ffee''
   \<and> created_refs (snd (CreateBranch good_remote (Some az_devops)
       ''A'' ''P'' ''R'' ''refs/heads/feature/x'' ''c0ffee'')) = [''refs/heads/feature/x'']"
proof -
  have c: "Some az_devops = Some az_devops" by simp
  have a: "devops_auth az_devops = Some \<lparr>cred = ''az''\<rparr>"
    by (simp add: az_devops_def devops_NewClient_def)
  have np: "\<not> HasPrefix ''feature/x'' ''refs/heads/''" by (simp add: HasPrefix_def)
  have p: "HasPrefix ''refs/heads/feature/x'' ''refs/heads/''" by (simp add: HasPrefix_def)
  show ?thesis
    using branch_name_normalised [OF c a, of good_remote "''A''" "''P''" "''R''" "''feature/x''" "''c0ffee''"]
      branch_name_normalised [OF c a, of good_remote "''A''" "''P''" "''R''" "''refs/heads/feature/x''" "''c0ffee''"]
      np p
    by simp
qed

subsection \<open>Confirming the names\<close>

text \<open>
  The workspace-name input that \<open>initialModel\<close> builds holds at most 100 characters
  (\<open>CharLimit = 100\<close>): what is set is cut to its first 100 characters. The text
  inputs of the concrete instance do so.
\<close>

lemma plain_text_input:
  "textinput_Value plain_widgets (textinput_Focus plain_widgets (textinput_SetValue plain_widgets t s))
     = take 100 s"
  by (simp add: plain_widgets_def)

lemma long_name_length: "length long_name = 91"
  by (simp add: long_name_def)

text \<open>
  C8, as amended. Confirming a non-empty branch name in the phase \<open>stateEnterBranch\<close>
  stores the name, moves to \<open>stateEnterWorkspace\<close>, hands the widget's \<open>SetValue\<close>
  exactly the text Feature - followed by the branch name, and focuses the input. The
  text input is the library's, limited to 100 characters: for every text input that
  keeps the first 100 characters of what was set, the workspace-name input then holds
  that text cut to 100 characters, which is the whole text when the branch name has
  at most 90 characters and is not when it has more.
\<close>

theorem branch_name_seeds_workspace_name:
  assumes "state m = stateEnterBranch"
    and "textinput_Value W (branchInput m) = b" and "b \<noteq> []"
  shows "Update W m (KeyMsg ''enter'')
           = Inr (m\<lparr>newBranchName := b, state := stateEnterWorkspace,
                    wsInput := textinput_Focus W
                       (textinput_SetValue W (wsInput m) (''Feature - '' @ b))\<rparr>, Blink)
       \<and> ((\<forall>t s. textinput_Value W (textinput_Focus W (textinput_SetValue W t s)) = take 100 s) \<longrightarrow>
            (\<exists>m' c. Update W m (KeyMsg ''enter'') = Inr (m', c)
               \<and> state m' = stateEnterWorkspace
               \<and> textinput_Value W (wsInput m') = take 100 (''Feature - '' @ b)
               \<and> (length b \<le> 90 \<longrightarrow> textinput_Value W (wsInput m') = ''Feature - '' @ b)
               \<and> (90 < length b \<longrightarrow> textinput_Value W (wsInput m') \<noteq> ''Feature - '' @ b)))"
proof -
  have u: "Update W m (KeyMsg ''enter'')
           = Inr (m\<lparr>newBranchName := b, state := stateEnterWorkspace,
                    wsInput := textinput_Focus W
                       (textinput_SetValue W (wsInput m) (''Feature - '' @ b))\<rparr>, Blink)"
    using assms by (simp add: Update_def Update_state_def Let_def)
  have short: "take 100 (''Feature - '' @ b) = ''Feature - '' @ b" if "length b \<le> 90"
    using that by simp
  have long: "take 100 (''Feature - '' @ b) \<noteq> ''Feature - '' @ b" if "90 < length b"
  proof
    assume "take 100 (''Feature - '' @ b) = ''Feature - '' @ b"
    then have "length (take 100 (''Feature - '' @ b)) = length (''Feature - '' @ b)" by simp
    with that show False by simp
  qed
  show ?thesis using short long by (simp add: u del: take_append append.simps)
qed

theorem branch_name_seeds_workspace_name_witness:
  "Update plain_widgets (initialModel () [] ''feature/x'' [] \<lparr>state := stateEnterBranch\<rparr>)
       (KeyMsg ''enter'')
     = Inr (initialModel () [] ''feature/x'' []
              \<lparr>newBranchName := ''feature/x'', state := stateEnterWorkspace,
               wsInput := ''Feature - feature/x''\<rparr>, Blink)"
proof -
  have s: "state (initialModel () [] ''feature/x'' [] \<lparr>state := stateEnterBranch\<rparr>) = stateEnterBranch"
    by simp
  have v: "textinput_Value plain_widgets
             (branchInput (initialModel () [] ''feature/x'' [] \<lparr>state := stateEnterBranch\<rparr>))
           = ''feature/x''"
    by (simp add: plain_widgets_def initialModel_def)
  have n: "''feature/x'' \<noteq> []" by simp
  show ?thesis
    using branch_name_seeds_workspace_name [OF s v n] plain_text_input
    by (simp add: plain_widgets_def initialModel_def)
qed

text \<open>
  C8 as stated fails: a branch name of 91 characters passes the branch
  input, and after it is confirmed the workspace-name input holds 100 characters,
  not the 101 of Feature - followed by the name.
\<close>

theorem long_branch_name_is_cut:
  "textinput_Value plain_widgets
      (branchInput (initialModel () [] long_name [] \<lparr>state := stateEnterBranch\<rparr>)) = long_name
   \<and> long_name \<noteq> []
   \<and> length long_name = 91
   \<and> (case Update plain_widgets (initialModel () [] long_name [] \<lparr>state := stateEnterBranch\<rparr>)
              (KeyMsg ''enter'') of
         Inl f \<Rightarrow> False
       | Inr (m', c) \<Rightarrow>
           state m' = stateEnterWorkspace
           \<and> length (textinput_Value plain_widgets (wsInput m')) = 100
           \<and> length (''Feature - '' @ long_name) = 101
           \<and> textinput_Value plain_widgets (wsInput m') \<noteq> ''Feature - '' @ long_name)"
proof -
  have ne: "long_name \<noteq> []" using long_name_length by auto
  have u: "Update plain_widgets (initialModel () [] long_name [] \<lparr>state := stateEnterBranch\<rparr>)
              (KeyMsg ''enter'')
           = Inr (initialModel () [] long_name []
                    \<lparr>newBranchName := long_name, state := stateEnterWorkspace,
                     wsInput := take 100 (''Feature - '' @ long_name)\<rparr>, Blink)"
    using ne by (simp add: Update_def Update_state_def Let_def plain_widgets_def initialModel_def
        del: take_append append.simps)
  have l: "length (take 100 (''Feature - '' @ long_name)) = 100"
    by (simp add: long_name_length del: take_append)
  have d: "take 100 (''Feature - '' @ long_name) \<noteq> ''Feature - '' @ long_name"
  proof
    assume "take 100 (''Feature - '' @ long_name) = ''Feature - '' @ long_name"
    then have "length (take 100 (''Feature - '' @ long_name)) = length (''Feature - '' @ long_name)"
      by simp
    then show False by (simp add: long_name_length)
  qed
  have v: "textinput_Value plain_widgets
      (branchInput (initialModel () [] long_name [] \<lparr>state := stateEnterBranch\<rparr>)) = long_name"
    by (simp add: plain_widgets_def initialModel_def)
  have w: "textinput_Value plain_widgets (take 100 (''Feature - '' @ long_name))
             = take 100 (''Feature - '' @ long_name)"
    by (simp add: plain_widgets_def)
  show ?thesis unfolding u using l d ne v
    by (simp add: w long_name_length del: take_append append.simps)
qed

text \<open>
  C9. Confirming an empty text in the phase \<open>stateEnterBranch\<close> or
  \<open>stateEnterWorkspace\<close> leaves the phase as it is, records no error and returns only the
  command of the text input, so no remote operation is started. For every key, the
  phase is left (for the next phase) only by enter on a non-empty text, which is then
  the name stored; otherwise the phase and the error stay and no remote operation is
  started.
\<close>

theorem empty_name_is_not_accepted:
  "(state m = stateEnterBranch \<and> textinput_Value W (branchInput m) = [] \<longrightarrow>
      Update W m (KeyMsg ''enter'')
        = Inr (m\<lparr>newBranchName := [],
                 branchInput := textinput_Update W (branchInput m) (KeyMsg ''enter'')\<rparr>,
               Batch [textinput_Cmd]))
 \<and> (state m = stateEnterWorkspace \<and> textinput_Value W (wsInput m) = [] \<longrightarrow>
      Update W m (KeyMsg ''enter'')
        = Inr (m\<lparr>newWorkspaceName := [],
                 wsInput := textinput_Update W (wsInput m) (KeyMsg ''enter'')\<rparr>,
               Batch [textinput_Cmd]))
 \<and> (state m = stateEnterBranch \<longrightarrow>
      (\<exists>m' c. Update W m (KeyMsg k) = Inr (m', c)
         \<and> (if k = ''enter'' \<and> textinput_Value W (branchInput m) \<noteq> []
            then state m' = stateEnterWorkspace
                 \<and> newBranchName m' = textinput_Value W (branchInput m)
            else state m' = stateEnterBranch \<and> err m' = err m \<and> remote_cmds c = [])))
 \<and> (state m = stateEnterWorkspace \<longrightarrow>
      (\<exists>m' c. Update W m (KeyMsg k) = Inr (m', c)
         \<and> (if k = ''enter'' \<and> textinput_Value W (wsInput m) \<noteq> []
            then state m' = stateExecuting
                 \<and> newWorkspaceName m' = textinput_Value W (wsInput m)
            else state m' = stateEnterWorkspace \<and> err m' = err m \<and> remote_cmds c = [])))"
  by (simp add: Update_def Update_state_def Let_def)

theorem empty_name_is_not_accepted_witness:
  "Update plain_widgets (initialModel () [] ''x'' [] \<lparr>state := stateEnterBranch\<rparr>) (KeyMsg ''enter'')
     = Inr (initialModel () [] ''x'' []
              \<lparr>newBranchName := ''x'', state := stateEnterWorkspace, wsInput := ''Feature - x''\<rparr>, Blink)
   \<and> Update plain_widgets (initialModel () [] [] [] \<lparr>state := stateEnterBranch\<rparr>) (KeyMsg ''enter'')
     = Inr (initialModel () [] [] [] \<lparr>state := stateEnterBranch\<rparr>, Batch [textinput_Cmd])
   \<and> Update plain_widgets (initialModel () [] [] [] \<lparr>state := stateEnterWorkspace\<rparr>) (KeyMsg ''enter'')
     = Inr (initialModel () [] [] [] \<lparr>state := stateEnterWorkspace\<rparr>, Batch [textinput_Cmd])"
  using empty_name_is_not_accepted
     [of "initialModel () [] [] [] \<lparr>state := stateEnterBranch\<rparr>" plain_widgets "''enter''"]
    empty_name_is_not_accepted
     [of "initialModel () [] [] [] \<lparr>state := stateEnterWorkspace\<rparr>" plain_widgets "''enter''"]
    empty_name_is_not_accepted
     [of "initialModel () [] ''x'' [] \<lparr>state := stateEnterBranch\<rparr>" plain_widgets "''enter''"]
  by (simp add: plain_widgets_def initialModel_def Update_def Update_state_def Let_def)

subsection \<open>The execution sequence, outcome by outcome\<close>

text \<open>
  Each operation of a client makes at most one call: none when the client cannot send
  (it panics first), and otherwise one, whose answer decides the result.
\<close>

lemma devops_doRequest_outcome:
  assumes "devops_doRequest R c org meth path b = (res, tr)"
  shows "(res = Panic NilPointerDereference \<and> tr = [] \<and> \<not> devops_live c)
       \<or> (tr = [DevOps_call org meth path b] \<and>
             ((\<exists>e. res = Err e \<and> failure R (DevOps_call org meth path b) = Some e)
              \<or> (\<exists>x. res = Ok x \<and> succeeded R (DevOps_call org meth path b) \<and> devops_live c)))"
  using assms
  by (auto simp: devops_doRequest_def devops_live_def send_def failure_def succeeded_def Let_def
      split: option.splits sum.splits)

lemma fabric_doRequest_outcome:
  assumes "fabric_doRequest R c meth path b = (res, tr)"
  shows "(res = Panic NilPointerDereference \<and> tr = [] \<and> \<not> fabric_live c)
       \<or> (tr = [Fabric_call meth path b] \<and>
             ((\<exists>e. res = Err e \<and> failure R (Fabric_call meth path b) = Some e)
              \<or> (\<exists>x. res = Ok x \<and> answer R (Fabric_call meth path b) = Inr x
                    \<and> succeeded R (Fabric_call meth path b) \<and> fabric_live c)))"
  using assms
  by (auto simp: fabric_doRequest_def fabric_live_def send_def failure_def succeeded_def Let_def
      split: option.splits sum.splits)

lemma GetBranchObjectId_outcome:
  assumes "GetBranchObjectId R c org project repo b = (res, tr)"
  shows "(res = Panic NilPointerDereference \<and> tr = [] \<and> \<not> devops_live c)
       \<or> (\<exists>c1. tr = [c1] \<and> step_of c1 = 1 \<and>
             ((res = Panic IndexOutOfRange \<and> succeeded R c1 \<and> devops_live c)
              \<or> (\<exists>e. res = Err e \<and> (failure R c1 = Some e \<or> succeeded R c1))
              \<or> (\<exists>x. res = Ok x \<and> succeeded R c1 \<and> devops_live c)))"
proof -
  let ?path = "''/'' @ project @ ''/_apis/git/repositories/'' @ repo
                 @ ''/refs?filter=heads/'' @ TrimPrefix b ''refs/heads/'' @ ''&api-version=7.1''"
  obtain r0 t0 where d: "devops_doRequest R c org ''GET'' ?path NoBody = (r0, t0)"
    by (cases "devops_doRequest R c org ''GET'' ?path NoBody")
  from devops_doRequest_outcome [OF d] assms d show ?thesis
    by (auto simp: GetBranchObjectId_def Let_def split: if_splits list.splits)
qed

lemma CreateBranch_outcome:
  assumes "CreateBranch R c org project repo b base = (res, tr)"
  shows "(res = Panic NilPointerDereference \<and> tr = [] \<and> \<not> devops_live c)
       \<or> (\<exists>c2. tr = [c2] \<and> step_of c2 = 2 \<and>
             ((\<exists>e. res = Err e \<and> failure R c2 = Some e)
              \<or> (res = Ok () \<and> succeeded R c2 \<and> devops_live c)))"
proof -
  let ?path = "''/'' @ project @ ''/_apis/git/repositories/'' @ repo @ ''/refs?api-version=7.1''"
  let ?body = "Body_refs [\<lparr>Name = (if \<not> HasPrefix b ''refs/heads/''
                                     then ''refs/heads/'' @ b else b),
                      OldObjectId = ''0000000000000000000000000000000000000000'',
                      NewObjectId = base\<rparr>]"
  obtain r0 t0 where d: "devops_doRequest R c org ''POST'' ?path ?body = (r0, t0)"
    by (cases "devops_doRequest R c org ''POST'' ?path ?body")
  from devops_doRequest_outcome [OF d] assms d show ?thesis
    by (auto simp: CreateBranch_def Let_def)
qed

lemma CreateWorkspace_outcome:
  assumes "CreateWorkspace R c req = (res, tr)"
  shows "(res = Panic NilPointerDereference \<and> tr = [] \<and> \<not> fabric_live c)
       \<or> (tr = [Fabric_call ''POST'' ''/workspaces'' (Body_createWorkspace req)] \<and>
             ((\<exists>e. res = Err e \<and> failure R (hd tr) = Some e)
              \<or> (\<exists>x. res = Ok (out_Workspace x) \<and> answer R (hd tr) = Inr x
                    \<and> succeeded R (hd tr) \<and> fabric_live c)))"
proof -
  obtain r0 t0 where d: "fabric_doRequest R c ''POST'' ''/workspaces'' (Body_createWorkspace req) = (r0, t0)"
    by (cases "fabric_doRequest R c ''POST'' ''/workspaces'' (Body_createWorkspace req)")
  from fabric_doRequest_outcome [OF d] assms d show ?thesis
    by (auto simp: CreateWorkspace_def)
qed

lemma ConnectWorkspaceToGit_outcome:
  assumes "ConnectWorkspaceToGit R c w req = (res, tr)"
  shows "(res = Panic NilPointerDereference \<and> tr = [] \<and> \<not> fabric_live c)
       \<or> (tr = [Fabric_call ''POST'' (''/workspaces/'' @ w @ ''/git/connect'') (Body_connect req)] \<and>
             ((\<exists>e. res = Err e \<and> failure R (hd tr) = Some e)
              \<or> (res = Ok () \<and> succeeded R (hd tr) \<and> fabric_live c)))"
proof -
  let ?path = "''/workspaces/'' @ w @ ''/git/connect''"
  obtain r0 t0 where d: "fabric_doRequest R c ''POST'' ?path (Body_connect req) = (r0, t0)"
    by (cases "fabric_doRequest R c ''POST'' ?path (Body_connect req)")
  from fabric_doRequest_outcome [OF d] assms d show ?thesis
    by (auto simp: ConnectWorkspaceToGit_def Let_def)
qed

lemma UpdateWorkspaceFromGit_outcome:
  assumes "UpdateWorkspaceFromGit R c w = (res, tr)"
  shows "(res = Panic NilPointerDereference \<and> tr = [] \<and> \<not> fabric_live c)
       \<or> (\<exists>c5. tr = [c5] \<and> step_of c5 = 5 \<and>
             ((\<exists>e. res = Err e \<and> failure R c5 = Some e)
              \<or> (res = Ok () \<and> succeeded R c5 \<and> fabric_live c)))"
proof -
  let ?path = "''/workspaces/'' @ w @ ''/git/updateFromGit''"
  obtain r0 t0 where d: "fabric_doRequest R c ''POST'' ?path (Body_updateFromGit ''PreferRemote'' True) = (r0, t0)"
    by (cases "fabric_doRequest R c ''POST'' ?path (Body_updateFromGit ''PreferRemote'' True)")
  from fabric_doRequest_outcome [OF d] assms d show ?thesis
    by (auto simp: UpdateWorkspaceFromGit_def Let_def)
qed

text \<open>
  The outcomes of the execution sequence: it panics before any call when no linked
  workspace is selected; it panics later only when a client cannot send or the first
  reply lists no ref; it stops at the first step that fails, with the label of that
  step; or all five calls are made and succeed.
\<close>

lemma executeFlowCmd_outcome
  [consumes 1, case_names unlinked panic failed1 failed2 failed3 failed4 failed5 finished]:
  assumes run: "executeFlowCmd R m = (r, tr)"
  obtains
    "\<not> linked m" "r = Inl NilPointerDereference" "tr = []"
  | f where "linked m" "r = Inl f" "f = NilPointerDereference \<longrightarrow> \<not> live m"
      "map step_of tr = [] \<or> map step_of tr = [1] \<or> map step_of tr = [1, 2]"
      "\<forall>c\<in>set tr. succeeded R c"
  | e c1 where "linked m" "r = Inr (errMsg (''getting dev branch commit: '' @ e))"
      "tr = [c1]" "step_of c1 = 1"
  | e c1 c2 where "linked m" "r = Inr (errMsg (''creating feature branch: '' @ e))"
      "tr = [c1, c2]" "step_of c1 = 1" "step_of c2 = 2" "succeeded R c1" "failure R c2 = Some e"
  | e c1 c2 sel g where "selectedDevWorkspace m = Some sel" "GitProviderDetails sel = Some g"
      "r = Inr (errMsg (''creating workspace: '' @ e))"
      "tr = [c1, c2, create_call m sel]"
      "step_of c1 = 1" "step_of c2 = 2" "succeeded R c1" "succeeded R c2"
      "failure R (create_call m sel) = Some e"
  | e c1 c2 p sel g where "selectedDevWorkspace m = Some sel" "GitProviderDetails sel = Some g"
      "r = Inr (errMsg (''connecting git: '' @ e))"
      "tr = [c1, c2, create_call m sel, connect_call m g p]"
      "step_of c1 = 1" "step_of c2 = 2" "succeeded R c1" "succeeded R c2"
      "succeeded R (create_call m sel)" "failure R (connect_call m g p) = Some e"
  | e c1 c2 p c5 sel g where "selectedDevWorkspace m = Some sel" "GitProviderDetails sel = Some g"
      "r = Inr (errMsg (''updating from git: '' @ e))"
      "tr = [c1, c2, create_call m sel, connect_call m g p, c5]"
      "step_of c1 = 1" "step_of c2 = 2" "step_of c5 = 5" "succeeded R c1" "succeeded R c2"
      "succeeded R (create_call m sel)" "succeeded R (connect_call m g p)" "failure R c5 = Some e"
  | c1 c2 p c5 sel g x where "selectedDevWorkspace m = Some sel" "GitProviderDetails sel = Some g"
      "r = Inr (executionDoneMsg done_text)"
      "tr = [c1, c2, create_call m sel, connect_call m g p, c5]"
      "answer R (create_call m sel) = Inr x"
      "p = ''/workspaces/'' @ Id_ws (out_Workspace x) @ ''/git/connect''"
      "step_of c1 = 1" "step_of c2 = 2" "step_of c5 = 5" "succeeded R c1" "succeeded R c2"
      "succeeded R (create_call m sel)" "succeeded R (connect_call m g p)" "succeeded R c5"
proof (cases "linked m")
  case False
  with run have "r = Inl NilPointerDereference \<and> tr = []"
    by (auto simp: executeFlowCmd_def linked_def split: option.splits)
  with False that(1) show ?thesis by blast
next
  case lk: True
  then obtain sel g where sel: "selectedDevWorkspace m = Some sel"
    and g: "GitProviderDetails sel = Some g"
    by (auto simp: linked_def split: option.splits)
  obtain r1 t1 where s1: "GetBranchObjectId R (devopsClient m) (OrganizationName g)
             (ProjectName g) (RepositoryName g) (BranchName g) = (r1, t1)"
    by (cases "GetBranchObjectId R (devopsClient m) (OrganizationName g)
             (ProjectName g) (RepositoryName g) (BranchName g)")
  note o1 = GetBranchObjectId_outcome [OF s1]
  show ?thesis
  proof (cases r1)
    case (Panic f)
    with run sel g s1 have "r = Inl f" "tr = t1" by (auto simp: executeFlowCmd_def)
    with o1 Panic lk show ?thesis by (intro that(2) [of f]) (auto simp: live_def)
  next
    case (Err e)
    with run sel g s1 have "r = Inr (errMsg (''getting dev branch commit: '' @ e))" "tr = t1"
      by (auto simp: executeFlowCmd_def)
    with o1 Err lk show ?thesis by (auto intro: that(3))
  next
    case (Ok base)
    with o1 obtain c1 where t1: "t1 = [c1]" and c1: "step_of c1 = 1" "succeeded R c1"
      and dl: "devops_live (devopsClient m)" by auto
    obtain r2 t2 where s2: "CreateBranch R (devopsClient m) (OrganizationName g)
             (ProjectName g) (RepositoryName g) (newBranchName m) base = (r2, t2)"
      by (cases "CreateBranch R (devopsClient m) (OrganizationName g)
             (ProjectName g) (RepositoryName g) (newBranchName m) base")
    note o2 = CreateBranch_outcome [OF s2]
    show ?thesis
    proof (cases r2)
      case (Panic f)
      with o2 dl show ?thesis by auto
    next
      case (Err e)
      with run sel g s1 s2 Ok have "r = Inr (errMsg (''creating feature branch: '' @ e))" "tr = t1 @ t2"
        by (auto simp: executeFlowCmd_def)
      with o2 Err lk t1 c1 show ?thesis by (auto intro: that(4))
    next
      case ok2: (Ok u)
      with o2 obtain c2 where t2: "t2 = [c2]" and c2: "step_of c2 = 2" "succeeded R c2" by auto
      obtain r3 t3 where s3: "CreateWorkspace R (fabricClient m) \<lparr>req_DisplayName = newWorkspaceName m,
                  req_Description = ''Feature workspace for '' @ newBranchName m
                     @ '' (Parent: '' @ DisplayName sel @ '')'',
                  req_CapacityId = CapacityId sel\<rparr> = (r3, t3)"
        by (cases "CreateWorkspace R (fabricClient m) \<lparr>req_DisplayName = newWorkspaceName m,
                  req_Description = ''Feature workspace for '' @ newBranchName m
                     @ '' (Parent: '' @ DisplayName sel @ '')'',
                  req_CapacityId = CapacityId sel\<rparr>")
      note o3 = CreateWorkspace_outcome [OF s3]
      note pre3 = run sel g s1 s2 Ok ok2 s3
      show ?thesis
      proof (cases r3)
        case (Panic f)
        with pre3 have "r = Inl f" "tr = t1 @ t2 @ t3" by (auto simp: executeFlowCmd_def Let_def)
        with o3 Panic lk t1 t2 c1 c2 show ?thesis
          by (intro that(2) [of f]) (auto simp: live_def)
      next
        case (Err e)
        with pre3 have "r = Inr (errMsg (''creating workspace: '' @ e))" "tr = t1 @ t2 @ t3"
          by (auto simp: executeFlowCmd_def Let_def)
        with o3 Err sel g t1 t2 c1 c2 show ?thesis
          by (intro that(5) [of sel g e c1 c2]) auto
      next
        case ok3: (Ok newWs)
        with o3 obtain x where t3: "t3 = [create_call m sel]"
          and c3: "succeeded R (create_call m sel)"
          and fl: "fabric_live (fabricClient m)"
          and x: "answer R (create_call m sel) = Inr x" "newWs = out_Workspace x" by auto
        obtain r4 t4 where s4: "ConnectWorkspaceToGit R (fabricClient m) (Id_ws newWs)
                \<lparr>req_GitProviderDetails = Some (g\<lparr>BranchName := newBranchName m\<rparr>)\<rparr> = (r4, t4)"
          by (cases "ConnectWorkspaceToGit R (fabricClient m) (Id_ws newWs)
                \<lparr>req_GitProviderDetails = Some (g\<lparr>BranchName := newBranchName m\<rparr>)\<rparr>")
        note o4 = ConnectWorkspaceToGit_outcome [OF s4]
        note pre4 = pre3 ok3 s4
        show ?thesis
        proof (cases r4)
          case (Panic f)
          with o4 fl show ?thesis by auto
        next
          case (Err e)
          with pre4 have "r = Inr (errMsg (''connecting git: '' @ e))" "tr = t1 @ t2 @ t3 @ t4"
            by (auto simp: executeFlowCmd_def Let_def)
          moreover from o4 Err obtain p where "t4 = [connect_call m g p]" "failure R (connect_call m g p) = Some e" by auto
          ultimately show ?thesis using sel g t1 t2 t3 c1 c2 c3
            by (intro that(6) [of sel g e c1 c2 p]) auto
        next
          case ok4: (Ok u4)
          with o4 obtain p where t4: "t4 = [connect_call m g p]"
            and c4: "succeeded R (connect_call m g p)"
            and p: "p = ''/workspaces/'' @ Id_ws newWs @ ''/git/connect''" by auto
          obtain r5 t5 where s5: "UpdateWorkspaceFromGit R (fabricClient m) (Id_ws newWs) = (r5, t5)"
            by (cases "UpdateWorkspaceFromGit R (fabricClient m) (Id_ws newWs)")
          note o5 = UpdateWorkspaceFromGit_outcome [OF s5]
          note pre5 = pre4 ok4 s5
          show ?thesis
          proof (cases r5)
            case (Panic f)
            with o5 fl show ?thesis by auto
          next
            case (Err e)
            with pre5 have "r = Inr (errMsg (''updating from git: '' @ e))" "tr = t1 @ t2 @ t3 @ t4 @ t5"
              by (auto simp: executeFlowCmd_def Let_def)
            moreover from o5 Err obtain c5 where "t5 = [c5]" "step_of c5 = 5" "failure R c5 = Some e" by auto
            ultimately show ?thesis using sel g t1 t2 t3 t4 c1 c2 c3 c4
              by (intro that(7) [of sel g e c1 c2 p c5]) auto
          next
            case ok5: (Ok u5)
            with pre5 have "r = Inr (executionDoneMsg done_text)" "tr = t1 @ t2 @ t3 @ t4 @ t5"
              by (auto simp: executeFlowCmd_def Let_def done_text_def)
            moreover from o5 ok5 obtain c5 where "t5 = [c5]" "step_of c5 = 5" "succeeded R c5" by auto
            ultimately show ?thesis using sel g t1 t2 t3 t4 c1 c2 c3 c4 x p
              by (intro that(8) [where sel = sel and g = g and ?c1.0 = c1 and ?c2.0 = c2
                    and p = p and ?c5.0 = c5 and x = x]) auto
          qed
        qed
      qed
    qed
  qed
qed

subsection \<open>The execution sequence on the concrete instance\<close>

lemmas instance_defs = ready_model_def good_remote_def good_answer_def no_capacity_remote_def
  dev_workspace_def dev_link_def new_workspace_def az_devops_def devops_NewClient_def
  fabric_NewClient_def plain_widgets_def

lemmas flow_defs = executeFlowCmd_def GetBranchObjectId_def CreateBranch_def CreateWorkspace_def
  ConnectWorkspaceToGit_def UpdateWorkspaceFromGit_def devops_doRequest_def fabric_doRequest_def
  send_def Let_def HasPrefix_def TrimPrefix_def out_GitRefsResponse_def out_Workspace_def

lemma create_requests_simps:
  "create_requests [] = []"
  "step_of c \<noteq> 3 \<Longrightarrow> create_requests (c # tr) = create_requests tr"
  "create_requests (Fabric_call meth p (Body_createWorkspace req) # tr) = req # create_requests tr"
  by (auto simp: create_requests_def elim: step_of.elims split: call.splits body.splits)

lemma connect_links_simps:
  "connect_links [] = []"
  "step_of c \<noteq> 4 \<Longrightarrow> connect_links (c # tr) = connect_links tr"
  "connect_links (Fabric_call meth p (Body_connect req) # tr) = req_GitProviderDetails req # connect_links tr"
  by (auto simp: connect_links_def elim: step_of.elims split: call.splits body.splits)

lemma no_capacity_flow:
  "executeFlowCmd no_capacity_remote ready_model =
     (Inr (errMsg ''creating workspace: fabric API error 403: no capacity''),
      [DevOps_call ''A'' ''GET''
         ''/P/_apis/git/repositories/R/refs?filter=heads/main&api-version=7.1'' NoBody,
       DevOps_call ''A'' ''POST'' ''/P/_apis/git/repositories/R/refs?api-version=7.1''
         (Body_refs [\<lparr>Name = ''refs/heads/feature/login'',
                      OldObjectId = ''0000000000000000000000000000000000000000'',
                      NewObjectId = ''c0ffee''\<rparr>]),
       Fabric_call ''POST'' ''/workspaces''
         (Body_createWorkspace
            \<lparr>req_DisplayName = ''Feature - feature/login'',
             req_Description = ''Feature workspace for feature/login (Parent: Dev)'',
             req_CapacityId = ''cap-1''\<rparr>)])"
  by (simp add: flow_defs instance_defs)

lemma ready_flow:
  "executeFlowCmd good_remote ready_model =
     (Inr (executionDoneMsg done_text),
      [DevOps_call ''A'' ''GET''
         ''/P/_apis/git/repositories/R/refs?filter=heads/main&api-version=7.1'' NoBody,
       DevOps_call ''A'' ''POST'' ''/P/_apis/git/repositories/R/refs?api-version=7.1''
         (Body_refs [\<lparr>Name = ''refs/heads/feature/login'',
                      OldObjectId = ''0000000000000000000000000000000000000000'',
                      NewObjectId = ''c0ffee''\<rparr>]),
       Fabric_call ''POST'' ''/workspaces''
         (Body_createWorkspace
            \<lparr>req_DisplayName = ''Feature - feature/login'',
             req_Description = ''Feature workspace for feature/login (Parent: Dev)'',
             req_CapacityId = ''cap-1''\<rparr>),
       Fabric_call ''POST'' ''/workspaces/ws-new/git/connect''
         (Body_connect
            \<lparr>req_GitProviderDetails = Some (dev_link\<lparr>BranchName := ''feature/login''\<rparr>)\<rparr>),
       Fabric_call ''POST'' ''/workspaces/ws-new/git/updateFromGit''
         (Body_updateFromGit ''PreferRemote'' True)])"
  by (simp add: flow_defs instance_defs done_text_def)

lemma same_branch_flow:
  "executeFlowCmd good_remote same_branch_model =
     (Inr (executionDoneMsg done_text),
      [DevOps_call ''A'' ''GET''
         ''/P/_apis/git/repositories/R/refs?filter=heads/main&api-version=7.1'' NoBody,
       DevOps_call ''A'' ''POST'' ''/P/_apis/git/repositories/R/refs?api-version=7.1''
         (Body_refs [\<lparr>Name = ''refs/heads/main'',
                      OldObjectId = ''0000000000000000000000000000000000000000'',
                      NewObjectId = ''c0ffee''\<rparr>]),
       Fabric_call ''POST'' ''/workspaces''
         (Body_createWorkspace
            \<lparr>req_DisplayName = ''Feature - main'',
             req_Description = ''Feature workspace for main (Parent: Dev)'',
             req_CapacityId = ''cap-1''\<rparr>),
       Fabric_call ''POST'' ''/workspaces/ws-new/git/connect''
         (Body_connect \<lparr>req_GitProviderDetails = Some dev_link\<rparr>),
       Fabric_call ''POST'' ''/workspaces/ws-new/git/updateFromGit''
         (Body_updateFromGit ''PreferRemote'' True)])"
  by (simp add: flow_defs instance_defs same_branch_model_def done_text_def)

subsection \<open>A failure of step 3\<close>

text \<open>
  C3. In every run of the execution sequence in which the call that creates the
  workspace (step 3) is made and fails, with the error \<open>e\<close> of building the request or of
  the service's answer, the calls made are exactly those of steps 1, 2 and 3, so steps
  4 and 5 are never sent; the command returns the error message creating workspace:
  followed by \<open>e\<close>; \<open>Update\<close> records that text and moves to the error phase; and the
  text does not start with the label of step 1, 2, 4 or 5.
\<close>

theorem failed_workspace_creation_stops_the_sequence:
  assumes "executeFlowCmd R m = (r, tr)"
    and "c \<in> set tr" and "step_of c = 3" and "failure R c = Some e"
  shows "r = Inr (errMsg (''creating workspace: '' @ e))
       \<and> map step_of tr = [1, 2, 3]
       \<and> Update W m' (errMsg (''creating workspace: '' @ e))
           = Inr (m'\<lparr>err := Some (''creating workspace: '' @ e), state := stateError\<rparr>, Cmd_nil)
       \<and> \<not> prefix ''getting dev branch commit: '' (''creating workspace: '' @ e)
       \<and> \<not> prefix ''creating feature branch: '' (''creating workspace: '' @ e)
       \<and> \<not> prefix ''connecting git: '' (''creating workspace: '' @ e)
       \<and> \<not> prefix ''updating from git: '' (''creating workspace: '' @ e)"
proof -
  have "r = Inr (errMsg (''creating workspace: '' @ e)) \<and> map step_of tr = [1, 2, 3]"
    using assms(1)
  proof (cases rule: executeFlowCmd_outcome)
    case unlinked
    with assms show ?thesis by simp
  next
    case (panic f)
    with assms show ?thesis by (auto simp: map_eq_Cons_conv)
  next
    case (failed1 e c1)
    with assms show ?thesis by auto
  next
    case (failed2 e c1 c2)
    with assms show ?thesis by auto
  next
    case (failed3 e' c1 c2 sel g)
    with assms show ?thesis by auto
  next
    case (failed4 e' c1 c2 p sel g)
    with assms show ?thesis by (auto simp: succeeded_def)
  next
    case (failed5 e' c1 c2 p c5 sel g)
    with assms show ?thesis by (auto simp: succeeded_def)
  next
    case (finished c1 c2 p c5 sel g)
    with assms show ?thesis by (auto simp: succeeded_def)
  qed
  then show ?thesis by (simp add: Update_def)
qed

theorem failed_workspace_creation_stops_the_sequence_witness:
  "fst (executeFlowCmd no_capacity_remote ready_model)
     = Inr (errMsg ''creating workspace: fabric API error 403: no capacity'')
   \<and> map step_of (snd (executeFlowCmd no_capacity_remote ready_model)) = [1, 2, 3]
   \<and> Update plain_widgets ready_model (errMsg ''creating workspace: fabric API error 403: no capacity'')
       = Inr (ready_model\<lparr>err := Some ''creating workspace: fabric API error 403: no capacity'',
                          state := stateError\<rparr>, Cmd_nil)"
proof -
  let ?c = "Fabric_call ''POST'' ''/workspaces''
         (Body_createWorkspace
            \<lparr>req_DisplayName = ''Feature - feature/login'',
             req_Description = ''Feature workspace for feature/login (Parent: Dev)'',
             req_CapacityId = ''cap-1''\<rparr>)"
  have sent: "?c \<in> set [DevOps_call ''A'' ''GET''
         ''/P/_apis/git/repositories/R/refs?filter=heads/main&api-version=7.1'' NoBody,
       DevOps_call ''A'' ''POST'' ''/P/_apis/git/repositories/R/refs?api-version=7.1''
         (Body_refs [\<lparr>Name = ''refs/heads/feature/login'',
                      OldObjectId = ''0000000000000000000000000000000000000000'',
                      NewObjectId = ''c0ffee''\<rparr>]), ?c]"
    by simp
  have third: "step_of ?c = 3" by simp
  have failed: "failure no_capacity_remote ?c = Some ''fabric API error 403: no capacity''"
    by (simp add: no_capacity_remote_def failure_def)
  show ?thesis
    using failed_workspace_creation_stops_the_sequence
      [OF no_capacity_flow sent third failed, of plain_widgets ready_model]
    by (simp add: no_capacity_flow)
qed

subsection \<open>The git link of the new workspace\<close>

text \<open>
  C5, as amended. Every git link the execution sequence asks to connect is the git
  link of the selected workspace with the branch replaced by the branch name the user
  chose. A successful run connects exactly one, in its fourth call, and that call is
  addressed to the workspace that the answer to the third call, the creation of the
  workspace, names: \<open>/workspaces/<id>/git/connect\<close>. The organization, the project,
  the repository, the directory and the provider of the link are those of the source
  link, and its branch is the chosen name; it is the branch of the source link exactly
  when the user chose that name.
\<close>

theorem new_git_link_points_at_new_branch:
  assumes "executeFlowCmd R m = (r, tr)"
    and "selectedDevWorkspace m = Some sel" and "GitProviderDetails sel = Some g"
  shows "(\<forall>l \<in> set (connect_links tr). l = Some (g\<lparr>BranchName := newBranchName m\<rparr>))
       \<and> (r = Inr (executionDoneMsg s) \<longrightarrow>
            (\<exists>c1 c2 c3 x c5 l.
               tr = [c1, c2, c3,
                     Fabric_call ''POST'' (''/workspaces/'' @ Id_ws (out_Workspace x) @ ''/git/connect'')
                       (Body_connect \<lparr>req_GitProviderDetails = Some l\<rparr>),
                     c5]
               \<and> step_of c3 = 3 \<and> answer R c3 = Inr x
               \<and> connect_links tr = [Some l]
               \<and> OrganizationName l = OrganizationName g
               \<and> ProjectName l = ProjectName g
               \<and> RepositoryName l = RepositoryName g
               \<and> DirectoryName l = DirectoryName g
               \<and> GitProviderType l = GitProviderType g
               \<and> BranchName l = newBranchName m
               \<and> (BranchName l = BranchName g \<longleftrightarrow> newBranchName m = BranchName g)))"
  using assms(1)
proof (cases rule: executeFlowCmd_outcome)
  case unlinked
  with assms show ?thesis by (simp add: connect_links_simps)
next
  case (panic f)
  with assms show ?thesis by (auto simp: map_eq_Cons_conv connect_links_simps)
next
  case (failed1 e c1)
  with assms show ?thesis by (auto simp: connect_links_simps)
next
  case (failed2 e c1 c2)
  with assms show ?thesis by (auto simp: connect_links_simps)
next
  case (failed3 e' c1 c2 sel g)
  with assms show ?thesis by (auto simp: connect_links_simps)
next
  case (failed4 e' c1 c2 p sel g)
  with assms show ?thesis by (auto simp: connect_links_simps)
next
  case (failed5 e' c1 c2 p c5 sel g)
  with assms show ?thesis by (auto simp: connect_links_simps)
next
  case (finished c1 c2 p c5 sel' g' x)
  with assms have eq: "sel' = sel" "g' = g" by auto
  have tr: "tr = [c1, c2, create_call m sel,
              Fabric_call ''POST'' (''/workspaces/'' @ Id_ws (out_Workspace x) @ ''/git/connect'')
                (Body_connect \<lparr>req_GitProviderDetails = Some (g\<lparr>BranchName := newBranchName m\<rparr>)\<rparr>),
              c5]"
    using finished(4,6) eq by simp
  have steps: "step_of c1 = 1" "step_of c2 = 2" "step_of c5 = 5" "step_of (create_call m sel) = 3"
    using finished by simp_all
  have links: "connect_links tr = [Some (g\<lparr>BranchName := newBranchName m\<rparr>)]"
    unfolding tr using steps by (simp add: connect_links_simps)
  have x: "answer R (create_call m sel) = Inr x" using finished(5) eq by simp
  show ?thesis
  proof (intro conjI impI)
    show "\<forall>l \<in> set (connect_links tr). l = Some (g\<lparr>BranchName := newBranchName m\<rparr>)"
      by (simp add: links)
  next
    show "\<exists>c1 c2 c3 x c5 l.
               tr = [c1, c2, c3,
                     Fabric_call ''POST'' (''/workspaces/'' @ Id_ws (out_Workspace x) @ ''/git/connect'')
                       (Body_connect \<lparr>req_GitProviderDetails = Some l\<rparr>),
                     c5]
               \<and> step_of c3 = 3 \<and> answer R c3 = Inr x
               \<and> connect_links tr = [Some l]
               \<and> OrganizationName l = OrganizationName g
               \<and> ProjectName l = ProjectName g
               \<and> RepositoryName l = RepositoryName g
               \<and> DirectoryName l = DirectoryName g
               \<and> GitProviderType l = GitProviderType g
               \<and> BranchName l = newBranchName m
               \<and> (BranchName l = BranchName g \<longleftrightarrow> newBranchName m = BranchName g)"
    proof -
      let ?l = "g\<lparr>BranchName := newBranchName m\<rparr>"
      have fields: "OrganizationName ?l = OrganizationName g" "ProjectName ?l = ProjectName g"
        "RepositoryName ?l = RepositoryName g" "DirectoryName ?l = DirectoryName g"
        "GitProviderType ?l = GitProviderType g" "BranchName ?l = newBranchName m"
        "BranchName ?l = BranchName g \<longleftrightarrow> newBranchName m = BranchName g"
        by simp_all
      from tr steps(4) x links fields show ?thesis by blast
    qed
  qed
qed

theorem new_git_link_points_at_new_branch_witness:
  "snd (executeFlowCmd good_remote ready_model) ! 3
     = Fabric_call ''POST'' ''/workspaces/ws-new/git/connect''
         (Body_connect \<lparr>req_GitProviderDetails =
            Some \<lparr>OrganizationName = ''A'', ProjectName = ''P'', RepositoryName = ''R'',
                  BranchName = ''feature/login'', DirectoryName = ''/'',
                  GitProviderType = ''AzureDevOps''\<rparr>\<rparr>)
   \<and> connect_links (snd (executeFlowCmd good_remote ready_model))
     = [Some \<lparr>OrganizationName = ''A'', ProjectName = ''P'', RepositoryName = ''R'',
              BranchName = ''feature/login'', DirectoryName = ''/'',
              GitProviderType = ''AzureDevOps''\<rparr>]"
proof -
  have sel: "selectedDevWorkspace ready_model = Some (dev_workspace\<lparr>GitProviderDetails := Some dev_link\<rparr>)"
    by (simp add: ready_model_def)
  have g: "GitProviderDetails (dev_workspace\<lparr>GitProviderDetails := Some dev_link\<rparr>) = Some dev_link"
    by simp
  show ?thesis
    using new_git_link_points_at_new_branch [OF ready_flow sel g, of done_text]
    by (simp add: ready_flow connect_links_simps dev_link_def)
qed

subsection \<open>The request that creates the workspace\<close>

text \<open>
  C6, as amended. Whenever the execution sequence reaches step 3, it asks for exactly
  one workspace: the display name is the workspace name the user chose, the capacity is
  the capacity of the selected workspace, and the description is Feature workspace for,
  the branch name the user chose, and the display name of the selected workspace as
  Parent. The description is built from the new branch, not from the branch of the
  source workspace's git link.
\<close>

theorem workspace_request_of_step_3:
  assumes "executeFlowCmd R m = (r, tr)" and "selectedDevWorkspace m = Some sel"
  shows "create_requests tr =
           (if 3 \<in> set (map step_of tr)
            then [\<lparr>req_DisplayName = newWorkspaceName m,
                   req_Description = ''Feature workspace for '' @ newBranchName m
                      @ '' (Parent: '' @ DisplayName sel @ '')'',
                   req_CapacityId = CapacityId sel\<rparr>]
            else [])"
  using assms(1)
proof (cases rule: executeFlowCmd_outcome)
  case unlinked
  with assms show ?thesis by (simp add: create_requests_simps)
next
  case (panic f)
  with assms show ?thesis by (auto simp: map_eq_Cons_conv create_requests_simps)
next
  case (failed1 e c1)
  with assms show ?thesis by (auto simp: create_requests_simps)
next
  case (failed2 e c1 c2)
  with assms show ?thesis by (auto simp: create_requests_simps)
next
  case (failed3 e' c1 c2 sel g)
  with assms show ?thesis by (auto simp: create_requests_simps)
next
  case (failed4 e' c1 c2 p sel g)
  with assms show ?thesis by (auto simp: create_requests_simps)
next
  case (failed5 e' c1 c2 p c5 sel g)
  with assms show ?thesis by (auto simp: create_requests_simps)
next
  case (finished c1 c2 p c5 sel g)
  with assms show ?thesis by (auto simp: create_requests_simps)
qed

theorem workspace_request_of_step_3_witness:
  "create_requests (snd (executeFlowCmd good_remote ready_model))
     = [\<lparr>req_DisplayName = ''Feature - feature/login'',
         req_Description = ''Feature workspace for feature/login (Parent: Dev)'',
         req_CapacityId = ''cap-1''\<rparr>]"
proof -
  have sel: "selectedDevWorkspace ready_model = Some (dev_workspace\<lparr>GitProviderDetails := Some dev_link\<rparr>)"
    by (simp add: ready_model_def)
  show ?thesis
    using workspace_request_of_step_3 [OF ready_flow sel]
    by (simp add: ready_flow create_requests_simps)
qed

text \<open>
  C6 as stated fails: with the source workspace linked to the branch main and the new
  branch feature/login, the description of the request does not contain main.
\<close>

theorem description_does_not_name_source_branch:
  "BranchName dev_link = ''main''
   \<and> selectedDevWorkspace ready_model = Some (dev_workspace\<lparr>GitProviderDetails := Some dev_link\<rparr>)
   \<and> map req_Description (create_requests (snd (executeFlowCmd good_remote ready_model)))
       = [''Feature workspace for feature/login (Parent: Dev)'']
   \<and> \<not> sublist ''main'' ''Feature workspace for feature/login (Parent: Dev)''"
  by (simp add: flow_defs instance_defs create_requests_def sublist_code prefix_code)

section \<open>The event loop keeps the session sound\<close>

lemma in_flight_ok_Nil [simp]: "in_flight_ok p []"
  by (simp add: in_flight_ok_def)

lemma in_flight_ok_single [simp]: "in_flight_ok p [c] = awaited p c"
  by (simp add: in_flight_ok_def)

lemma in_flight_cases:
  assumes "in_flight_ok p ps"
  obtains "ps = []" | c where "ps = [c]" "awaited p c"
  using assms by (auto simp: in_flight_ok_def split: list.splits)

lemma awaited_cases:
  assumes "awaited p c"
  obtains "p = stateInit" "c = Cmd_initClients"
  | mm where "p = stateLoadingWorkspaces" "c = Cmd_fetchWorkspaces mm" "live mm"
  | mm i where "p = stateLoadingGit" "c = Cmd_fetchGitConnection mm i" "live mm"
  | mm where "p = stateExecuting" "c = Cmd_executeFlow mm" "live mm" "linked mm"
  using assms by (cases "(p, c)" rule: awaited.cases) auto

lemma nothing_awaited:
  assumes "in_flight_ok p ps"
    and "p = stateSelectWorkspace \<or> p = stateEnterBranch \<or> p = stateEnterWorkspace
         \<or> p = stateDone \<or> p = stateError"
  shows "ps = []"
  using assms by (auto elim!: in_flight_cases elim: awaited_cases)

subsection \<open>The second switch, phase by phase\<close>

lemma Update_state_spinner:
  assumes "state m = stateInit \<or> state m = stateLoadingWorkspaces
           \<or> state m = stateLoadingGit \<or> state m = stateExecuting"
  shows "Update_state W m x = (m\<lparr>spinner := spinner_Update W (spinner m) x\<rparr>, Batch [spinner_Cmd])"
  using assms by (auto simp: Update_state_def Let_def)

lemma Update_state_final:
  assumes "state m = stateDone \<or> state m = stateError"
  shows "Update_state W m x = (m, Batch [])"
  using assms by (auto simp: Update_state_def Let_def)

lemma Update_state_select:
  assumes "state m = stateSelectWorkspace"
  shows "Update_state W m x =
     (case (if x = KeyMsg ''enter'' then list_SelectedItem W (workspaceLst m) else None) of
        Some i \<Rightarrow> (m\<lparr>selectedDevWorkspace := Some (workspace i), state := stateLoadingGit\<rparr>,
                   Cmd_fetchGitConnection
                     (m\<lparr>selectedDevWorkspace := Some (workspace i), state := stateLoadingGit\<rparr>)
                     (Id_ws (workspace i)))
      | None \<Rightarrow> (m\<lparr>workspaceLst := list_Update W (workspaceLst m) x\<rparr>, Batch [list_Cmd]))"
  using assms by (simp add: Update_state_def Let_def split: msg.splits option.splits)

lemma Update_state_branch:
  assumes "state m = stateEnterBranch"
  shows "Update_state W m x =
     (if x = KeyMsg ''enter'' then
        (if textinput_Value W (branchInput m) \<noteq> [] then
           (m\<lparr>newBranchName := textinput_Value W (branchInput m), state := stateEnterWorkspace,
              wsInput := textinput_Focus W (textinput_SetValue W (wsInput m)
                            (''Feature - '' @ textinput_Value W (branchInput m)))\<rparr>, Blink)
         else (m\<lparr>newBranchName := [], branchInput := textinput_Update W (branchInput m) x\<rparr>,
               Batch [textinput_Cmd]))
      else (m\<lparr>branchInput := textinput_Update W (branchInput m) x\<rparr>, Batch [textinput_Cmd]))"
  using assms by (simp add: Update_state_def Let_def split: msg.splits)

lemma Update_state_workspace:
  assumes "state m = stateEnterWorkspace"
  shows "Update_state W m x =
     (if x = KeyMsg ''enter'' then
        (if textinput_Value W (wsInput m) \<noteq> [] then
           (m\<lparr>newWorkspaceName := textinput_Value W (wsInput m), state := stateExecuting\<rparr>,
            Cmd_executeFlow
              (m\<lparr>newWorkspaceName := textinput_Value W (wsInput m), state := stateExecuting\<rparr>))
         else (m\<lparr>newWorkspaceName := [], wsInput := textinput_Update W (wsInput m) x\<rparr>,
               Batch [textinput_Cmd]))
      else (m\<lparr>wsInput := textinput_Update W (wsInput m) x\<rparr>, Batch [textinput_Cmd]))"
  using assms by (simp add: Update_state_def Let_def split: msg.splits)


subsection \<open>What the updates keep\<close>

lemma sound_same:
  assumes "state m' = state m" "executionInfos m' = executionInfos m"
    "selectedDevWorkspace m' = selectedDevWorkspace m" "fabricClient m' = fabricClient m"
    "devopsClient m' = devopsClient m" "successMsg m' = successMsg m"
  shows "sound m' = sound m"
  by (simp add: sound_def live_def linked_def assms)

lemma in_order_refl [simp]: "in_order p p"
  by (simp add: in_order_def)

lemma Update_state_sound:
  assumes "sound m" and "in_flight_ok (state m) ps" and "Update_state W m x = (m', c)"
  shows "sound m' \<and> in_flight_ok (state m') (ps @ remote_cmds c) \<and> in_order (state m) (state m')"
proof -
  consider (spin) "state m = stateInit \<or> state m = stateLoadingWorkspaces
           \<or> state m = stateLoadingGit \<or> state m = stateExecuting"
    | (final) "state m = stateDone \<or> state m = stateError"
    | (select) "state m = stateSelectWorkspace"
    | (branch) "state m = stateEnterBranch"
    | (workspace) "state m = stateEnterWorkspace"
    by (cases "state m") auto
  then show ?thesis
  proof cases
    case spin
    from assms(3) have m': "m' = m\<lparr>spinner := spinner_Update W (spinner m) x\<rparr>"
      and c: "c = Batch [spinner_Cmd]"
      by (simp_all add: Update_state_spinner [OF spin])
    have "sound m' = sound m" unfolding m' by (rule sound_same) simp_all
    with assms(1,2) show ?thesis by (simp add: m' c)
  next
    case final
    from assms(3) have "m' = m" "c = Batch []"
      by (simp_all add: Update_state_final [OF final])
    with assms(1,2) show ?thesis by simp
  next
    case select
    with assms(2) have ps: "ps = []" by (auto dest: nothing_awaited)
    show ?thesis
    proof (cases "if x = KeyMsg ''enter'' then list_SelectedItem W (workspaceLst m) else None")
      case None
      with assms(3) have m': "m' = m\<lparr>workspaceLst := list_Update W (workspaceLst m) x\<rparr>"
        and c: "c = Batch [list_Cmd]"
        by (simp_all add: Update_state_select [OF select])
      have "sound m' = sound m" unfolding m' by (rule sound_same) simp_all
      with assms(1) show ?thesis by (simp add: m' c ps)
    next
      case (Some i)
      with assms(3) have m': "m' = m\<lparr>selectedDevWorkspace := Some (workspace i), state := stateLoadingGit\<rparr>"
        and c: "c = Cmd_fetchGitConnection m' (Id_ws (workspace i))"
        by (auto simp: Update_state_select [OF select])
      from assms(1) select have "sound m' \<and> live m'"
        by (simp add: m' sound_def live_def linked_def)
      then show ?thesis by (simp add: c ps select in_order_def) (simp add: m')
    qed
  next
    case branch
    with assms(2) have ps: "ps = []" by (auto dest: nothing_awaited)
    show ?thesis
    proof (cases "x = KeyMsg ''enter'' \<and> textinput_Value W (branchInput m) \<noteq> []")
      case True
      with assms(3) have m': "m' = m\<lparr>newBranchName := textinput_Value W (branchInput m),
              state := stateEnterWorkspace,
              wsInput := textinput_Focus W (textinput_SetValue W (wsInput m)
                            (''Feature - '' @ textinput_Value W (branchInput m)))\<rparr>"
        and c: "c = Blink"
        by (auto simp: Update_state_branch [OF branch])
      from assms(1) branch have "sound m'"
        by (simp add: m' sound_def live_def linked_def)
      then show ?thesis by (simp add: c ps branch in_order_def) (simp add: m')
    next
      case False
      with assms(3) have st: "state m' = state m" "executionInfos m' = executionInfos m"
        "selectedDevWorkspace m' = selectedDevWorkspace m" "fabricClient m' = fabricClient m"
        "devopsClient m' = devopsClient m" "successMsg m' = successMsg m"
        and c: "c = Batch [textinput_Cmd]"
        by (auto simp: Update_state_branch [OF branch] split: if_splits)
      from st have "sound m' = sound m" by (rule sound_same)
      with assms(1) show ?thesis by (simp add: c ps st)
    qed
  next
    case workspace
    with assms(2) have ps: "ps = []" by (auto dest: nothing_awaited)
    show ?thesis
    proof (cases "x = KeyMsg ''enter'' \<and> textinput_Value W (wsInput m) \<noteq> []")
      case True
      with assms(3) have m': "m' = m\<lparr>newWorkspaceName := textinput_Value W (wsInput m),
              state := stateExecuting\<rparr>"
        and c: "c = Cmd_executeFlow m'"
        by (auto simp: Update_state_workspace [OF workspace])
      from assms(1) workspace have "sound m' \<and> live m' \<and> linked m'"
        by (simp add: m' sound_def live_def linked_def)
      then show ?thesis by (simp add: c ps workspace in_order_def) (simp add: m')
    next
      case False
      with assms(3) have st: "state m' = state m" "executionInfos m' = executionInfos m"
        "selectedDevWorkspace m' = selectedDevWorkspace m" "fabricClient m' = fabricClient m"
        "devopsClient m' = devopsClient m" "successMsg m' = successMsg m"
        and c: "c = Batch [textinput_Cmd]"
        by (auto simp: Update_state_workspace [OF workspace] split: if_splits)
      from st have "sound m' = sound m" by (rule sound_same)
      with assms(1) show ?thesis by (simp add: c ps st)
    qed
  qed
qed


subsection \<open>One message\<close>

lemma terminal_sound:
  assumes "sound m" and "in_flight_ok (state m) ps"
    and "x = KeyMsg k \<or> x = WindowSizeMsg w h \<or> x = OtherMsg t"
  shows "\<exists>m' c. Update W m x = Inr (m', c) \<and> sound m'
           \<and> in_flight_ok (state m') (ps @ remote_cmds c) \<and> in_order (state m) (state m')"
  using assms(3)
proof (elim disjE)
  assume x: "x = KeyMsg k"
  show ?thesis
  proof (cases "k = ''ctrl+c''")
    case True
    with assms(1,2) show ?thesis by (simp add: Update_def x)
  next
    case False
    obtain m' c where u: "Update_state W m x = (m', c)" by (cases "Update_state W m x")
    from False have "Update W m x = Inr (m', c)" by (simp add: Update_def x u [unfolded x])
    with Update_state_sound [OF assms(1,2) u] show ?thesis by simp
  qed
next
  assume x: "x = OtherMsg t"
  obtain m' c where u: "Update_state W m x = (m', c)" by (cases "Update_state W m x")
  have "Update W m x = Inr (m', c)" by (simp add: Update_def x u [unfolded x])
  with Update_state_sound [OF assms(1,2) u] show ?thesis by simp
next
  assume x: "x = WindowSizeMsg w h"
  let ?m = "m\<lparr>workspaceLst := list_SetSize W (workspaceLst m)
                       (w - fst (frame_size W)) (h - snd (frame_size W))\<rparr>"
  obtain m' c where u: "Update_state W ?m x = (m', c)" by (cases "Update_state W ?m x")
  have "sound ?m = sound m" by (rule sound_same) simp_all
  with assms(1) have s: "sound ?m" by simp
  from assms(2) have f: "in_flight_ok (state ?m) ps" by simp
  have "Update W m x = Inr (m', c)" by (simp add: Update_def x u [unfolded x])
  with Update_state_sound [OF s f u] show ?thesis by simp
qed

lemma error_sound:
  assumes "sound m" and "state m \<noteq> stateDone"
  shows "\<exists>m' c. Update W m (errMsg e) = Inr (m', c) \<and> sound m'
           \<and> in_flight_ok (state m') (remote_cmds c) \<and> in_order (state m) (state m')"
  using assms by (simp add: Update_def sound_def in_order_def)

lemma fetchWorkspacesCmd_live:
  assumes "live mm"
  shows "(\<exists>e. fst (fetchWorkspacesCmd R mm) = Inr (errMsg e))
       \<or> (\<exists>ws. fst (fetchWorkspacesCmd R mm) = Inr (workspacesMsg ws))"
proof -
  obtain r0 t0 where d: "fabric_doRequest R (fabricClient mm) ''GET'' ''/workspaces'' NoBody = (r0, t0)"
    by (cases "fabric_doRequest R (fabricClient mm) ''GET'' ''/workspaces'' NoBody")
  from fabric_doRequest_outcome [OF d] assms d show ?thesis
    by (auto simp: fetchWorkspacesCmd_def ListWorkspaces_def live_def)
qed

lemma fetchGitConnectionCmd_live:
  assumes "live mm"
  shows "(\<exists>e. fst (fetchGitConnectionCmd R mm i) = Inr (errMsg e))
       \<or> (\<exists>d. fst (fetchGitConnectionCmd R mm i) = Inr (gitConnectionMsg d))"
proof -
  let ?path = "''/workspaces/'' @ i @ ''/git/connection''"
  obtain r0 t0 where d: "fabric_doRequest R (fabricClient mm) ''GET'' ?path NoBody = (r0, t0)"
    by (cases "fabric_doRequest R (fabricClient mm) ''GET'' ?path NoBody")
  from fabric_doRequest_outcome [OF d] assms d show ?thesis
    by (auto simp: fetchGitConnectionCmd_def GetGitConnection_def live_def)
qed

lemma initClientsCmd_cases:
  "(\<exists>e. initClientsCmd R = errMsg e)
   \<or> (\<exists>a f d. initClientsCmd R = clientsReadyMsg a f d \<and> devops_live d \<and> fabric_live f)"
  by (auto simp: initClientsCmd_def devops_live_def fabric_live_def devops_NewClient_def
      fabric_NewClient_def split: sum.splits)

lemma executeFlowCmd_live:
  assumes "live mm" and "linked mm"
  shows "(\<exists>f. fst (executeFlowCmd R mm) = Inl f \<and> f \<noteq> NilPointerDereference)
       \<or> (\<exists>e. fst (executeFlowCmd R mm) = Inr (errMsg e))
       \<or> fst (executeFlowCmd R mm) = Inr (executionDoneMsg done_text)"
proof -
  obtain r tr where run: "executeFlowCmd R mm = (r, tr)" by (cases "executeFlowCmd R mm")
  from run assms have "(\<exists>f. r = Inl f \<and> f \<noteq> NilPointerDereference)
       \<or> (\<exists>e. r = Inr (errMsg e)) \<or> r = Inr (executionDoneMsg done_text)"
    by (cases rule: executeFlowCmd_outcome) auto
  with run show ?thesis by simp
qed

lemma completion_sound:
  assumes "sound m" and "awaited (state m) c"
  shows "case run_cmd R c of
           Inl f \<Rightarrow> f \<noteq> NilPointerDereference
         | Inr x \<Rightarrow> (\<exists>m' c'. Update W m x = Inr (m', c') \<and> sound m'
                       \<and> in_flight_ok (state m') (remote_cmds c')
                       \<and> in_order (state m) (state m'))"
  using assms(2)
proof (cases rule: awaited_cases)
  case 1
  from initClientsCmd_cases [of R] show ?thesis
  proof (elim disjE exE conjE)
    fix e assume "initClientsCmd R = errMsg e"
    with error_sound [OF assms(1), of W e] 1 show ?thesis by (simp add: run_cmd_def)
  next
    fix a f d assume "initClientsCmd R = clientsReadyMsg a f d" "devops_live d" "fabric_live f"
    with assms(1) 1 show ?thesis
      by (simp add: run_cmd_def Update_def Let_def sound_def live_def linked_def in_order_def)
  qed
next
  case (2 mm)
  from fetchWorkspacesCmd_live [OF 2(3), of R] show ?thesis
  proof (elim disjE exE)
    fix e assume "fst (fetchWorkspacesCmd R mm) = Inr (errMsg e)"
    with error_sound [OF assms(1), of W e] 2 show ?thesis by (simp add: run_cmd_def)
  next
    fix ws assume "fst (fetchWorkspacesCmd R mm) = Inr (workspacesMsg ws)"
    with assms(1) 2 show ?thesis
      by (simp add: run_cmd_def Update_def Let_def sound_def live_def linked_def in_order_def)
  qed
next
  case (3 mm i)
  from fetchGitConnectionCmd_live [OF 3(3), of R i] show ?thesis
  proof (elim disjE exE)
    fix e assume "fst (fetchGitConnectionCmd R mm i) = Inr (errMsg e)"
    with error_sound [OF assms(1), of W e] 3 show ?thesis by (simp add: run_cmd_def)
  next
    fix d assume "fst (fetchGitConnectionCmd R mm i) = Inr (gitConnectionMsg d)"
    with assms(1) 3 show ?thesis
      by (auto simp: run_cmd_def Update_def Let_def sound_def live_def linked_def in_order_def
          split: option.splits)
  qed
next
  case (4 mm)
  from executeFlowCmd_live [OF 4(3,4), of R] show ?thesis
  proof (elim disjE exE conjE)
    fix f assume "fst (executeFlowCmd R mm) = Inl f" "f \<noteq> NilPointerDereference"
    with 4 show ?thesis by (simp add: run_cmd_def)
  next
    fix e assume "fst (executeFlowCmd R mm) = Inr (errMsg e)"
    with error_sound [OF assms(1), of W e] 4 show ?thesis by (simp add: run_cmd_def)
  next
    assume "fst (executeFlowCmd R mm) = Inr (executionDoneMsg done_text)"
    with assms(1) 4 show ?thesis
      by (simp add: run_cmd_def Update_def Let_def sound_def live_def linked_def in_order_def)
  qed
qed

subsection \<open>One event, and all of them\<close>

lemma step_sound:
  assumes "sound m" and "in_flight_ok (state m) ps"
  shows "case step R W (Running m ps) e of
           Crashed f \<Rightarrow> f \<noteq> NilPointerDereference
         | Running m' ps' \<Rightarrow> sound m' \<and> in_flight_ok (state m') ps'
                               \<and> in_order (state m) (state m')"
proof (cases e)
  case (Key k)
  from terminal_sound [OF assms, where x = "KeyMsg k" and k = k and W = W] Key show ?thesis
    by (auto simp: deliver_def)
next
  case (WindowSize w h)
  from terminal_sound [OF assms, where x = "WindowSizeMsg w h" and w = w and h = h and W = W] WindowSize show ?thesis
    by (auto simp: deliver_def)
next
  case (Library t)
  from terminal_sound [OF assms, where x = "OtherMsg t" and t = t and W = W] Library show ?thesis
    by (auto simp: deliver_def)
next
  case (Complete n)
  from assms(2) show ?thesis
  proof (cases rule: in_flight_cases)
    case 1
    with assms Complete show ?thesis by simp
  next
    case (2 c)
    show ?thesis
    proof (cases n)
      case (Suc k)
      with assms Complete 2 show ?thesis by simp
    next
      case 0
      from completion_sound [OF assms(1) 2(2), where R = R and W = W] Complete 2 0 show ?thesis
        by (auto simp: deliver_def split: sum.splits)
    qed
  qed
qed

lemma step_invariant:
  assumes "invariant p"
  shows "invariant (step R W p e)"
proof (cases p)
  case (Crashed f)
  with assms show ?thesis by simp
next
  case (Running m ps)
  with assms have "sound m" "in_flight_ok (state m) ps" by simp_all
  from step_sound [OF this, where R = R and W = W and e = e] Running show ?thesis
    by (cases "step R W (Running m ps) e") auto
qed

lemma run_invariant:
  assumes "invariant p"
  shows "invariant (run R W p es)"
  using assms unfolding run_def
  by (induction es arbitrary: p) (simp_all add: step_invariant)

lemma start_invariant: "invariant (start s lst bi wsi)"
  by (simp add: start_def Init_def initialModel_def sound_def Let_def)

lemma phases_Running: "\<exists>rest. phases R W (Running m ps) es = state m # rest"
  by (cases es) simp_all

lemma phases_in_order:
  assumes "invariant p"
  shows "successively in_order (phases R W p es)"
  using assms
proof (induction es arbitrary: p)
  case Nil
  then show ?case by (cases p) simp_all
next
  case (Cons e es)
  show ?case
  proof (cases p)
    case (Crashed f)
    then show ?thesis by simp
  next
    case (Running m ps)
    with Cons.prems have s: "sound m" "in_flight_ok (state m) ps" by simp_all
    have later: "successively in_order (phases R W (step R W p e) es)"
      by (rule Cons.IH) (rule step_invariant [OF Cons.prems])
    show ?thesis
    proof (cases "step R W (Running m ps) e")
      case c: (Crashed f)
      with Running show ?thesis by simp
    next
      case r: (Running m' ps')
      from step_sound [OF s, where R = R and W = W and e = e] r have o: "in_order (state m) (state m')" by simp
      from phases_Running [where R = R and W = W and m = m' and ps = ps' and es = es] obtain rest
        where rest: "phases R W (Running m' ps') es = state m' # rest" ..
      from later Running r rest o show ?thesis by simp
    qed
  qed
qed

subsection \<open>Update on any messages\<close>

lemma selected_same:
  assumes "state m' = state m" "selectedDevWorkspace m' = selectedDevWorkspace m"
  shows "selected_when_needed m' = selected_when_needed m"
  by (simp add: selected_when_needed_def linked_def assms)

lemma Update_state_selected:
  assumes "selected_when_needed m" and "Update_state W m x = (m', c)"
  shows "selected_when_needed m'"
proof -
  consider (spin) "state m = stateInit \<or> state m = stateLoadingWorkspaces
           \<or> state m = stateLoadingGit \<or> state m = stateExecuting"
    | (final) "state m = stateDone \<or> state m = stateError"
    | (select) "state m = stateSelectWorkspace"
    | (branch) "state m = stateEnterBranch"
    | (workspace) "state m = stateEnterWorkspace"
    by (cases "state m") auto
  then show ?thesis
  proof cases
    case spin
    from assms(2) have m': "m' = m\<lparr>spinner := spinner_Update W (spinner m) x\<rparr>"
      by (simp add: Update_state_spinner [OF spin])
    have "selected_when_needed m' = selected_when_needed m"
      unfolding m' by (rule selected_same) simp_all
    with assms(1) show ?thesis by simp
  next
    case final
    from assms(2) have "m' = m" by (simp add: Update_state_final [OF final])
    with assms(1) show ?thesis by simp
  next
    case select
    from assms(2) have
      "(\<exists>w. m' = m\<lparr>selectedDevWorkspace := Some w, state := stateLoadingGit\<rparr>)
       \<or> m' = m\<lparr>workspaceLst := list_Update W (workspaceLst m) x\<rparr>"
      by (auto simp: Update_state_select [OF select] split: option.splits)
    with assms(1) select show ?thesis
      by (auto simp: selected_when_needed_def linked_def)
  next
    case branch
    from assms(2) branch have "selectedDevWorkspace m' = selectedDevWorkspace m
       \<and> (state m' = stateEnterBranch \<or> state m' = stateEnterWorkspace)"
      by (auto simp: Update_state_branch [OF branch] split: if_splits)
    with assms(1) branch show ?thesis
      by (auto simp: selected_when_needed_def linked_def)
  next
    case workspace
    from assms(2) workspace have "selectedDevWorkspace m' = selectedDevWorkspace m
       \<and> (state m' = stateEnterWorkspace \<or> state m' = stateExecuting)"
      by (auto simp: Update_state_workspace [OF workspace] split: if_splits)
    with assms(1) workspace show ?thesis
      by (auto simp: selected_when_needed_def linked_def)
  qed
qed

lemma Update_selected:
  assumes "selected_when_needed m" and "Update W m x = Inr (m', c)"
  shows "selected_when_needed m'"
proof (cases x)
  case (KeyMsg k)
  show ?thesis
  proof (cases "k = ''ctrl+c''")
    case True
    with assms KeyMsg show ?thesis by (simp add: Update_def)
  next
    case False
    with assms(2) KeyMsg have "Update_state W m x = (m', c)" by (simp add: Update_def)
    with assms(1) show ?thesis by (rule Update_state_selected)
  qed
next
  case (WindowSizeMsg w h)
  let ?m = "m\<lparr>workspaceLst := list_SetSize W (workspaceLst m)
                       (w - fst (frame_size W)) (h - snd (frame_size W))\<rparr>"
  have "selected_when_needed ?m = selected_when_needed m" by (rule selected_same) simp_all
  with assms(1) have s: "selected_when_needed ?m" by simp
  from assms(2) WindowSizeMsg have "Update_state W ?m x = (m', c)" by (simp add: Update_def)
  with s show ?thesis by (rule Update_state_selected)
next
  case (OtherMsg t)
  with assms(2) have "Update_state W m x = (m', c)" by (simp add: Update_def)
  with assms(1) show ?thesis by (rule Update_state_selected)
next
  case (gitConnectionMsg d)
  with assms(2) show ?thesis
    by (auto simp: Update_def Let_def selected_when_needed_def linked_def
        split: option.splits if_splits)
next
  case (executionStepMsg info)
  with assms(2) have "m' = m\<lparr>executionInfos := executionInfos m @ [info]\<rparr>"
    by (auto simp: Update_def)
  moreover have "selected_when_needed (m\<lparr>executionInfos := executionInfos m @ [info]\<rparr>)
     = selected_when_needed m" by (rule selected_same) simp_all
  ultimately show ?thesis using assms(1) by simp
qed (use assms(2) in \<open>auto simp: Update_def Let_def selected_when_needed_def\<close>)

lemma after_messages_selected:
  assumes "selected_when_needed m" and "after_messages W m xs = Inr m'"
  shows "selected_when_needed m'"
  using assms
proof (induction xs arbitrary: m)
  case Nil
  then show ?case by simp
next
  case (Cons x xs)
  from Cons.prems(2) obtain m1 c where u: "Update W m x = Inr (m1, c)"
    and rest: "after_messages W m1 xs = Inr m'"
    by (auto split: sum.splits)
  from Update_selected [OF Cons.prems(1) u] rest show ?case by (rule Cons.IH)
qed

lemma initial_selected: "selected_when_needed (initialModel s lst bi wsi)"
  by (simp add: selected_when_needed_def initialModel_def)

subsection \<open>The end-to-end session on the concrete instance\<close>

lemmas loop_defs = run_def start_def Init_def initialModel_def deliver_def run_cmd_def
  Update_def Update_state_def initClientsCmd_def NewAuthenticator_def fetchWorkspacesCmd_def
  fetchGitConnectionCmd_def ListWorkspaces_def GetGitConnection_def
  out_WorkspaceListResponse_def out_GetGitConnectionResponse_def session_def

lemma session_before_execution:
  "run good_remote plain_widgets (start () [] [] []) (take 7 session)
     = Running ready_model [Cmd_executeFlow ready_model]"
  by (simp add: loop_defs flow_defs instance_defs)

lemma session_run:
  "run good_remote plain_widgets (start () [] [] []) session
     = Running (ready_model\<lparr>successMsg := done_text, state := stateDone\<rparr>) []"
  by (simp add: loop_defs flow_defs instance_defs done_text_def)

lemma session_phases:
  "phases good_remote plain_widgets (start () [] [] []) session
     = [stateInit, stateLoadingWorkspaces, stateSelectWorkspace, stateLoadingGit,
        stateEnterBranch, stateEnterBranch, stateEnterWorkspace, stateExecuting, stateDone]"
  by (simp add: loop_defs flow_defs instance_defs done_text_def)

lemma same_branch_before_execution:
  "run good_remote plain_widgets (start () [] [] []) (take 7 same_branch_session)
     = Running same_branch_model [Cmd_executeFlow same_branch_model]"
  by (simp add: loop_defs flow_defs instance_defs same_branch_model_def same_branch_session_def)

lemma good_remote_succeeds: "succeeded good_remote c"
  by (simp add: succeeded_def failure_def good_remote_def good_answer_def
      split: call.splits body.splits)

section \<open>The order of the phases\<close>

text \<open>
  C1, as amended. In every run of the program from the initial model (every list of
  events: keys, window sizes and library messages in any order, and the results of the
  commands the controller started, whether the services succeed or fail) the phase
  starts at \<open>stateInit\<close> and each event leaves it as it is, moves it to the next phase
  of the order Init, LoadingWorkspaces, SelectWorkspace, LoadingGit, EnterBranch,
  EnterWorkspace, Executing, Done, or moves it to \<open>stateError\<close>; the last phase and the
  error phase are never left. So no phase is skipped and none is entered again.
\<close>

theorem phases_follow_the_order:
  "successively in_order (phases R W (start s lst bi wsi) es)
   \<and> hd (phases R W (start s lst bi wsi) es) = stateInit"
proof
  show "successively in_order (phases R W (start s lst bi wsi) es)"
    by (rule phases_in_order) (rule start_invariant)
  show "hd (phases R W (start s lst bi wsi) es) = stateInit"
    using phases_Running [where R = R and W = W and es = es
        and m = "initialModel s lst bi wsi" and ps = "[Cmd_initClients]"]
    by (auto simp: start_def Init_def Let_def initialModel_def)
qed

theorem phases_follow_the_order_witness:
  "successively in_order
     [stateInit, stateLoadingWorkspaces, stateSelectWorkspace, stateLoadingGit,
      stateEnterBranch, stateEnterBranch, stateEnterWorkspace, stateExecuting, stateDone]
   \<and> phases good_remote plain_widgets (start () [] [] []) session
     = [stateInit, stateLoadingWorkspaces, stateSelectWorkspace, stateLoadingGit,
        stateEnterBranch, stateEnterBranch, stateEnterWorkspace, stateExecuting, stateDone]"
  using phases_follow_the_order [of good_remote plain_widgets "()" "[]" "[]" "[]" session]
  by (simp add: session_phases)

text \<open>
  C1 as stated, for every list of messages given to \<open>Update\<close>, fails: the first switch of
  \<open>Update\<close> does not look at the phase. From the initial model a list of workspaces
  moves the session to \<open>stateSelectWorkspace\<close> past \<open>stateLoadingWorkspaces\<close>, ready
  clients then move it back to \<open>stateLoadingWorkspaces\<close>, and the final message of the
  execution sequence moves it to \<open>stateDone\<close> past five phases.
\<close>

theorem messages_out_of_phase_break_the_order:
  "phases_of_messages plain_widgets (initialModel () [] [] [])
       [workspacesMsg [dev_workspace],
        clientsReadyMsg (Some \<lparr>cred = ''az''\<rparr>) (Some (fabric_NewClient (Some \<lparr>cred = ''az''\<rparr>)))
          (Some az_devops),
        executionDoneMsg done_text]
     = [stateInit, stateSelectWorkspace, stateLoadingWorkspaces, stateDone]
   \<and> \<not> in_order stateInit stateSelectWorkspace
   \<and> \<not> in_order stateSelectWorkspace stateLoadingWorkspaces
   \<and> \<not> in_order stateLoadingWorkspaces stateDone
   \<and> \<not> successively in_order
          (phases_of_messages plain_widgets (initialModel () [] [] [])
             [workspacesMsg [dev_workspace],
              clientsReadyMsg (Some \<lparr>cred = ''az''\<rparr>) (Some (fabric_NewClient (Some \<lparr>cred = ''az''\<rparr>)))
                (Some az_devops),
              executionDoneMsg done_text])"
  by (simp add: Update_def initialModel_def in_order_def Let_def)

section \<open>The end-to-end session\<close>

text \<open>
  C2, as amended. The execution sequence returns its final message exactly when all
  five calls are made, in the order of the steps, and all are answered with success;
  that message carries a summary that is not empty, and \<open>Update\<close> stores the summary and
  moves to \<open>stateDone\<close> without touching the progress entries. An entry is appended
  only when an \<open>executionStepMsg\<close> arrives, and no command sends one: in every program
  the event loop reaches from the initial model the list of progress entries is empty,
  and in the phase \<open>stateDone\<close> the summary is the text of the execution sequence.
\<close>

theorem execution_reports_only_its_outcome:
  "(executeFlowCmd R m = (r, tr) \<longrightarrow>
      ((map step_of tr = [1, 2, 3, 4, 5] \<and> (\<forall>c \<in> set tr. succeeded R c))
         \<longleftrightarrow> r = Inr (executionDoneMsg done_text)))
   \<and> done_text \<noteq> []
   \<and> Update W m' (executionDoneMsg done_text)
        = Inr (m'\<lparr>successMsg := done_text, state := stateDone\<rparr>, Quit)
   \<and> Update W m' (executionStepMsg info)
        = Inr (m'\<lparr>executionInfos := executionInfos m' @ [info]\<rparr>, Cmd_nil)
   \<and> (run R W (start s lst bi wsi) es = Running m2 ps \<longrightarrow>
        executionInfos m2 = [] \<and> (state m2 = stateDone \<longrightarrow> successMsg m2 = done_text))"
proof (intro conjI impI)
  assume run: "executeFlowCmd R m = (r, tr)"
  then show "(map step_of tr = [1, 2, 3, 4, 5] \<and> (\<forall>c \<in> set tr. succeeded R c))
         \<longleftrightarrow> r = Inr (executionDoneMsg done_text)"
    by (cases rule: executeFlowCmd_outcome) (auto simp: succeeded_def)
next
  show "done_text \<noteq> []" by (simp add: done_text_def)
next
  show "Update W m' (executionDoneMsg done_text)
        = Inr (m'\<lparr>successMsg := done_text, state := stateDone\<rparr>, Quit)"
    by (simp add: Update_def)
next
  show "Update W m' (executionStepMsg info)
        = Inr (m'\<lparr>executionInfos := executionInfos m' @ [info]\<rparr>, Cmd_nil)"
    by (simp add: Update_def)
next
  assume "run R W (start s lst bi wsi) es = Running m2 ps"
  with run_invariant [OF start_invariant [of s lst bi wsi], where R = R and W = W and es = es]
  have "sound m2" by simp
  then show "executionInfos m2 = []" and "state m2 = stateDone \<Longrightarrow> successMsg m2 = done_text"
    by (simp_all add: sound_def)
qed

theorem execution_reports_only_its_outcome_witness:
  "executeFlowCmd good_remote ready_model
     = (Inr (executionDoneMsg done_text), snd (executeFlowCmd good_remote ready_model))
   \<and> map step_of (snd (executeFlowCmd good_remote ready_model)) = [1, 2, 3, 4, 5]
   \<and> run good_remote plain_widgets (start () [] [] []) session
       = Running (ready_model\<lparr>successMsg := done_text, state := stateDone\<rparr>) []
   \<and> executionInfos (ready_model\<lparr>successMsg := done_text, state := stateDone\<rparr>) = []"
  using execution_reports_only_its_outcome
    [of good_remote ready_model "Inr (executionDoneMsg done_text)"
        "snd (executeFlowCmd good_remote ready_model)" plain_widgets
        ready_model "[]" "()" "[]" "[]" "[]" session
        "ready_model\<lparr>successMsg := done_text, state := stateDone\<rparr>" "[]"]
  by (simp add: session_run ready_flow)

text \<open>
  C2 as stated fails. In the end-to-end session (the first workspace is selected, its
  git link has the provider AzureDevOps, the branch name is feature/login, the proposed
  workspace name is accepted, all five calls succeed) the last phase is \<open>stateDone\<close>
  with a summary, and the list of progress entries is empty: it does not hold five.
\<close>

theorem successful_session_records_no_progress:
  "run good_remote plain_widgets (start () [] [] []) (take 7 session)
     = Running ready_model [Cmd_executeFlow ready_model]
   \<and> fst (executeFlowCmd good_remote ready_model) = Inr (executionDoneMsg done_text)
   \<and> map (succeeded good_remote) (snd (executeFlowCmd good_remote ready_model))
       = [True, True, True, True, True]
   \<and> (case run good_remote plain_widgets (start () [] [] []) session of
         Running m ps \<Rightarrow> state m = stateDone \<and> successMsg m \<noteq> [] \<and> executionInfos m = []
                          \<and> length (executionInfos m) \<noteq> 5
       | Crashed f \<Rightarrow> False)"
proof -
  have "executionInfos ready_model = []" by (simp add: ready_model_def)
  moreover have "done_text \<noteq> []" by (simp add: done_text_def)
  ultimately show ?thesis
    by (simp add: session_run session_before_execution ready_flow good_remote_succeeds)
qed

subsection \<open>Choosing the branch of the source workspace\<close>

text \<open>
  C5 as stated fails: nothing keeps the user from typing the branch of
  the source workspace. The session in which the user types main reaches the
  execution sequence, the sequence succeeds, and the one git link it connects is the
  git link of the source workspace, branch main included.
\<close>

theorem chosen_branch_may_be_the_source_branch:
  "run good_remote plain_widgets (start () [] [] []) (take 7 same_branch_session)
     = Running same_branch_model [Cmd_executeFlow same_branch_model]
   \<and> fst (executeFlowCmd good_remote same_branch_model) = Inr (executionDoneMsg done_text)
   \<and> selectedDevWorkspace same_branch_model
       = Some (dev_workspace\<lparr>GitProviderDetails := Some dev_link\<rparr>)
   \<and> connect_links (snd (executeFlowCmd good_remote same_branch_model)) = [Some dev_link]
   \<and> map (map_option BranchName) (connect_links (snd (executeFlowCmd good_remote same_branch_model)))
       = [Some (BranchName dev_link)]"
proof -
  have "selectedDevWorkspace same_branch_model
       = Some (dev_workspace\<lparr>GitProviderDetails := Some dev_link\<rparr>)"
    by (simp add: same_branch_model_def ready_model_def)
  then show ?thesis
    by (simp add: same_branch_before_execution same_branch_flow connect_links_simps)
qed

section \<open>The selected workspace\<close>

text \<open>
  C10. No run of the program from the initial model ends in a nil-pointer panic, and
  in every program it reaches: in the phases LoadingGit, EnterBranch, EnterWorkspace
  and Executing a workspace is selected, so the store of a git link through it does not
  panic; from EnterBranch on the selected workspace carries a git link; every execution
  sequence in flight is bound to a model with a selected, linked workspace and does not
  panic on nil; and the next event does not either. The facts about the model hold
  after any list of messages given to \<open>Update\<close> as well, in or out of phase, as long as
  \<open>Update\<close> returned.
\<close>

theorem selected_workspace_is_never_nil:
  "run R W (start s lst bi wsi) es \<noteq> Crashed NilPointerDereference
   \<and> (run R W (start s lst bi wsi) es = Running m ps \<longrightarrow>
        (state m \<in> {stateLoadingGit, stateEnterBranch, stateEnterWorkspace, stateExecuting}
           \<longrightarrow> selectedDevWorkspace m \<noteq> None
               \<and> Update W m (gitConnectionMsg d) \<noteq> Inl NilPointerDereference)
      \<and> (state m \<in> {stateEnterBranch, stateEnterWorkspace, stateExecuting} \<longrightarrow> linked m)
      \<and> (\<forall>mm. Cmd_executeFlow mm \<in> set ps \<longrightarrow>
            linked mm \<and> fst (executeFlowCmd R mm) \<noteq> Inl NilPointerDereference)
      \<and> step R W (Running m ps) e \<noteq> Crashed NilPointerDereference)
   \<and> (after_messages W (initialModel s lst bi wsi) xs = Inr m2 \<longrightarrow>
        (state m2 \<in> {stateLoadingGit, stateEnterBranch, stateEnterWorkspace, stateExecuting}
           \<longrightarrow> selectedDevWorkspace m2 \<noteq> None
               \<and> Update W m2 (gitConnectionMsg d) \<noteq> Inl NilPointerDereference)
      \<and> (state m2 \<in> {stateEnterBranch, stateEnterWorkspace, stateExecuting} \<longrightarrow> linked m2))"
proof -
  note inv = run_invariant [OF start_invariant [of s lst bi wsi], where R = R and W = W and es = es]
  have upd: "Update W m0 (gitConnectionMsg d) \<noteq> Inl NilPointerDereference"
    if "selectedDevWorkspace m0 \<noteq> None" for m0 :: "('a, 'b, 'c) model"
    using that by (auto simp: Update_def Let_def split: option.splits)
  have crash: "run R W (start s lst bi wsi) es \<noteq> Crashed NilPointerDereference"
    using inv by (cases "run R W (start s lst bi wsi) es") auto
  have running: "(state m \<in> {stateLoadingGit, stateEnterBranch, stateEnterWorkspace, stateExecuting}
           \<longrightarrow> selectedDevWorkspace m \<noteq> None
               \<and> Update W m (gitConnectionMsg d) \<noteq> Inl NilPointerDereference)
      \<and> (state m \<in> {stateEnterBranch, stateEnterWorkspace, stateExecuting} \<longrightarrow> linked m)
      \<and> (\<forall>mm. Cmd_executeFlow mm \<in> set ps \<longrightarrow>
            linked mm \<and> fst (executeFlowCmd R mm) \<noteq> Inl NilPointerDereference)
      \<and> step R W (Running m ps) e \<noteq> Crashed NilPointerDereference"
    if r: "run R W (start s lst bi wsi) es = Running m ps"
  proof -
    from inv r have s: "sound m" and f: "in_flight_ok (state m) ps" by simp_all
    have sel: "selectedDevWorkspace m \<noteq> None"
      if "state m \<in> {stateLoadingGit, stateEnterBranch, stateEnterWorkspace, stateExecuting}"
      using s that unfolding sound_def by blast
    have lk: "linked m" if "state m \<in> {stateEnterBranch, stateEnterWorkspace, stateExecuting}"
      using s that unfolding sound_def by blast
    have flow: "linked mm \<and> fst (executeFlowCmd R mm) \<noteq> Inl NilPointerDereference"
      if "Cmd_executeFlow mm \<in> set ps" for mm
    proof -
      from f that have "awaited (state m) (Cmd_executeFlow mm)"
        by (cases rule: in_flight_cases) auto
      then have "live mm" "linked mm" by (auto elim: awaited_cases)
      with executeFlowCmd_live [OF this, of R] show ?thesis by auto
    qed
    have "invariant (step R W (Running m ps) e)"
      by (rule step_invariant) (simp add: s f)
    then have "step R W (Running m ps) e \<noteq> Crashed NilPointerDereference"
      by (cases "step R W (Running m ps) e") auto
    with sel upd lk flow show ?thesis by blast
  qed
  have messages: "(state m2 \<in> {stateLoadingGit, stateEnterBranch, stateEnterWorkspace, stateExecuting}
           \<longrightarrow> selectedDevWorkspace m2 \<noteq> None
               \<and> Update W m2 (gitConnectionMsg d) \<noteq> Inl NilPointerDereference)
      \<and> (state m2 \<in> {stateEnterBranch, stateEnterWorkspace, stateExecuting} \<longrightarrow> linked m2)"
    if "after_messages W (initialModel s lst bi wsi) xs = Inr m2"
  proof -
    from after_messages_selected [OF initial_selected that]
    have "selected_when_needed m2" .
    with upd [of m2] show ?thesis unfolding selected_when_needed_def by blast
  qed
  from crash running messages show ?thesis by blast
qed

theorem selected_workspace_is_never_nil_witness:
  "run good_remote plain_widgets (start () [] [] []) (take 7 session)
     = Running ready_model [Cmd_executeFlow ready_model]
   \<and> after_messages plain_widgets (initialModel () [workspaceItem dev_workspace] [] [])
        [workspacesMsg [dev_workspace], KeyMsg ''enter'']
       = Inr (initialModel () [workspaceItem dev_workspace] [] []
               \<lparr>state := stateLoadingGit, workspaces := [dev_workspace],
                selectedDevWorkspace := Some dev_workspace\<rparr>)
   \<and> state ready_model = stateExecuting
   \<and> selectedDevWorkspace ready_model \<noteq> None
   \<and> linked ready_model
   \<and> fst (executeFlowCmd good_remote ready_model) \<noteq> Inl NilPointerDereference"
proof -
  have after: "after_messages plain_widgets (initialModel () [workspaceItem dev_workspace] [] [])
        [workspacesMsg [dev_workspace], KeyMsg ''enter'']
       = Inr (initialModel () [workspaceItem dev_workspace] [] []
               \<lparr>state := stateLoadingGit, workspaces := [dev_workspace],
                selectedDevWorkspace := Some dev_workspace\<rparr>)"
    by (simp add: Update_def Update_state_def Let_def initialModel_def plain_widgets_def)
  have st: "state ready_model = stateExecuting" by (simp add: ready_model_def)
  have "selectedDevWorkspace ready_model \<noteq> None \<and> linked ready_model
        \<and> fst (executeFlowCmd good_remote ready_model) \<noteq> Inl NilPointerDereference"
    using selected_workspace_is_never_nil
      [of good_remote plain_widgets "()" "[]" "[]" "[]" "take 7 session" ready_model
          "[Cmd_executeFlow ready_model]" "Some dev_link" "Complete 0"
          "[workspacesMsg [dev_workspace], KeyMsg ''enter'']"
          "initialModel () [workspaceItem dev_workspace] [] []
               \<lparr>state := stateLoadingGit, workspaces := [dev_workspace],
                selectedDevWorkspace := Some dev_workspace\<rparr>"]
    by (simp add: session_before_execution st)
  with session_before_execution after st show ?thesis by simp
qed

end
